theory Spec2Isabelle
  imports Main "HOL-Library.AList"
begin

section \<open>Python values used by app.py\<close>

text \<open>
  Values that reach the program from JSON documents (the request body and the output of
  \<^verbatim>\<open>docker inspect\<close>). \<open>JNull\<close> is Python's \<^verbatim>\<open>None\<close>. A Python
  \<^verbatim>\<open>dict\<close> is an association list in insertion order; Python keeps its keys distinct.
  A float is identified by its \<^verbatim>\<open>repr\<close> text. Strings are lists of 8-bit characters,
  read as code points below 256.
\<close>

datatype json =
    JNull
  | JBool bool
  | JInt int
  | JFloat string
  | JStr string
  | JArr "json list"
  | JObj "(string \<times> json) list"

text \<open>Exceptions that the program can raise outside \<^verbatim>\<open>subprocess.run\<close>, with their message.\<close>

datatype exn =
    AttributeError string
  | KeyError string
  | TypeError string
  | IndexError string
  | ValueError string
  | RecursionError string

fun str_exn :: "exn \<Rightarrow> string" where
  "str_exn (AttributeError m) = m"
| "str_exn (KeyError m) = m"
| "str_exn (TypeError m) = m"
| "str_exn (IndexError m) = m"
| "str_exn (ValueError m) = m"
| "str_exn (RecursionError m) = m"

text \<open>Truth value of a Python object, as \<^verbatim>\<open>if x:\<close>, \<^verbatim>\<open>not x\<close> and \<^verbatim>\<open>x or y\<close> test it.\<close>

fun truthy :: "json \<Rightarrow> bool" where
  "truthy JNull = False"
| "truthy (JBool b) = b"
| "truthy (JInt i) = (i \<noteq> 0)"
| "truthy (JFloat r) = (r \<noteq> ''0.0'' \<and> r \<noteq> ''-0.0'')"
| "truthy (JStr s) = (s \<noteq> [])"
| "truthy (JArr xs) = (xs \<noteq> [])"
| "truthy (JObj kvs) = (kvs \<noteq> [])"

fun type_name :: "json \<Rightarrow> string" where
  "type_name JNull = ''NoneType''"
| "type_name (JBool b) = ''bool''"
| "type_name (JInt i) = ''int''"
| "type_name (JFloat r) = ''float''"
| "type_name (JStr s) = ''str''"
| "type_name (JArr xs) = ''list''"
| "type_name (JObj kvs) = ''dict''"

fun is_dict :: "json \<Rightarrow> bool" where
  "is_dict (JObj kvs) = True"
| "is_dict _ = False"

subsection \<open>Strings\<close>

text \<open>\<^verbatim>\<open>str.isspace\<close> on one character (code points below 256).\<close>

definition py_isspace :: "char \<Rightarrow> bool" where
  "py_isspace c = ((of_char c :: nat) \<in> {9, 10, 11, 12, 13, 28, 29, 30, 31, 32, 133, 160})"

text \<open>\<^verbatim>\<open>s.strip()\<close>\<close>

definition strip :: "string \<Rightarrow> string" where
  "strip s = rev (dropWhile py_isspace (rev (dropWhile py_isspace s)))"

text \<open>\<^verbatim>\<open>needle in hay\<close> on strings\<close>

fun starts_with :: "string \<Rightarrow> string \<Rightarrow> bool" where
  "starts_with [] hay = True"
| "starts_with (c # cs) [] = False"
| "starts_with (c # cs) (d # ds) = (c = d \<and> starts_with cs ds)"

fun str_contains :: "string \<Rightarrow> string \<Rightarrow> bool" where
  "str_contains needle [] = (needle = [])"
| "str_contains needle (d # ds) = (starts_with needle (d # ds) \<or> str_contains needle ds)"

text \<open>\<^verbatim>\<open>sep.join(xs)\<close> on a list of strings\<close>

fun join :: "string \<Rightarrow> string list \<Rightarrow> string" where
  "join sep [] = []"
| "join sep [x] = x"
| "join sep (x # y # ys) = x @ sep @ join sep (y # ys)"

text \<open>Decimal text of an integer, as \<^verbatim>\<open>str(n)\<close> gives it.\<close>

definition digit_char :: "nat \<Rightarrow> char" where
  "digit_char d = (''0123456789'' ! d)"

fun str_nat :: "nat \<Rightarrow> string" where
  "str_nat n = (if n < 10 then [digit_char n] else str_nat (n div 10) @ [digit_char (n mod 10)])"

definition str_int :: "int \<Rightarrow> string" where
  "str_int i = (if i < 0 then CHR ''-'' # str_nat (nat (- i)) else str_nat (nat i))"

text \<open>\<^verbatim>\<open>repr(s)\<close> of a string: the quote is chosen as Python does, and what is not printable is escaped.\<close>

definition hex_char :: "nat \<Rightarrow> char" where
  "hex_char d = (''0123456789abcdef'' ! d)"

definition printable :: "char \<Rightarrow> bool" where
  "printable c = (let n = (of_char c :: nat) in (32 \<le> n \<and> n < 127) \<or> (161 \<le> n \<and> n \<noteq> 173))"

definition repr_char :: "char \<Rightarrow> char \<Rightarrow> string" where
  "repr_char quote c =
     (if c = quote \<or> c = CHR 0x5C then [CHR 0x5C, c]
      else if c = CHR 0x09 then [CHR 0x5C, CHR ''t'']
      else if c = CHR 0x0A then [CHR 0x5C, CHR ''n'']
      else if c = CHR 0x0D then [CHR 0x5C, CHR ''r'']
      else if printable c then [c]
      else [CHR 0x5C, CHR ''x'', hex_char ((of_char c :: nat) div 16), hex_char ((of_char c :: nat) mod 16)])"

definition repr_str :: "string \<Rightarrow> string" where
  "repr_str s =
     (let quote = (if CHR 0x27 \<in> set s \<and> CHR 0x22 \<notin> set s then CHR 0x22 else CHR 0x27)
      in [quote] @ concat (map (repr_char quote) s) @ [quote])"

text \<open>\<^verbatim>\<open>repr(x)\<close> on the values above; \<^verbatim>\<open>str(x)\<close> and an f-string field differ from it on strings only.\<close>

fun py_repr :: "json \<Rightarrow> string" where
  "py_repr JNull = ''None''"
| "py_repr (JBool b) = (if b then ''True'' else ''False'')"
| "py_repr (JInt i) = str_int i"
| "py_repr (JFloat r) = r"
| "py_repr (JStr s) = repr_str s"
| "py_repr (JArr xs) = ''['' @ join '', '' (map py_repr xs) @ '']''"
| "py_repr (JObj kvs) =
     ''{'' @ join '', '' (map (\<lambda>kv. repr_str (fst kv) @ '': '' @ py_repr (snd kv)) kvs) @ ''}''"

fun py_str :: "json \<Rightarrow> string" where
  "py_str (JStr s) = s"
| "py_str v = py_repr v"

subsection \<open>Dictionaries\<close>

text \<open>A name between single quotes, as the messages of Python's exceptions show it.\<close>

definition quoted :: "string \<Rightarrow> string" where
  "quoted s = CHR 0x27 # s @ [CHR 0x27]"

text \<open>\<^verbatim>\<open>d.get(k, default)\<close> on a dict\<close>

definition dict_get :: "(string \<times> json) list \<Rightarrow> string \<Rightarrow> json \<Rightarrow> json" where
  "dict_get d k dflt = (case map_of d k of Some v \<Rightarrow> v | None \<Rightarrow> dflt)"

text \<open>\<^verbatim>\<open>x.get(k, default)\<close> on any object: only a dict has the method.\<close>

fun py_get :: "json \<Rightarrow> string \<Rightarrow> json \<Rightarrow> exn + json" where
  "py_get (JObj d) k dflt = Inr (dict_get d k dflt)"
| "py_get v k dflt =
     Inl (AttributeError (quoted (type_name v) @ '' object has no attribute '' @ quoted ''get''))"

text \<open>\<^verbatim>\<open>x.items()\<close> on any object\<close>

fun py_items :: "json \<Rightarrow> exn + (string \<times> json) list" where
  "py_items (JObj d) = Inr d"
| "py_items v =
     Inl (AttributeError (quoted (type_name v) @ '' object has no attribute '' @ quoted ''items''))"

text \<open>\<^verbatim>\<open>x[k] = v\<close> with a string key: an existing key keeps its place, a new one goes last.\<close>

fun py_setitem :: "json \<Rightarrow> string \<Rightarrow> json \<Rightarrow> exn + json" where
  "py_setitem (JObj d) k v = Inr (JObj (AList.update k v d))"
| "py_setitem (JArr xs) k v = Inl (TypeError ''list indices must be integers or slices, not str'')"
| "py_setitem x k v =
     Inl (TypeError (quoted (type_name x) @ '' object does not support item assignment''))"

section \<open>The runtime command executor\<close>

text \<open>
  What \<^verbatim>\<open>subprocess.run(command, capture_output=True, text=True, check=True)\<close> can do:
  the process ends with a return code and the two captured streams (a code other than 0
  is the \<^verbatim>\<open>CalledProcessError\<close>), or another exception is raised, \<open>Raised\<close> holding
  its \<^verbatim>\<open>str(e)\<close>.
\<close>

datatype proc_outcome = Completed int string string | Raised string

text \<open>The dictionary that \<^verbatim>\<open>run_docker_command\<close> returns; \<open>outp\<close> is its key \<^verbatim>\<open>"output"\<close>.\<close>

record cmd_result =
  success :: bool
  outp :: string
  error :: string

text \<open>
  What lies outside the repository: the process runner over a world \<open>'w\<close> of its own,
  \<^verbatim>\<open>json.loads\<close>, and the configured base image. \<^verbatim>\<open>json.loads\<close> gives
  \<open>Inr (Some v)\<close> for the value it reads, \<open>Inr None\<close> when it raises
  \<^verbatim>\<open>JSONDecodeError\<close>, and \<open>Inl e\<close> when it raises another exception (the
  \<^verbatim>\<open>ValueError\<close> of an integer beyond the digit limit, a \<^verbatim>\<open>RecursionError\<close>),
  which no \<^verbatim>\<open>except json.JSONDecodeError\<close> catches.
\<close>

record 'w platform =
  subprocess_run :: "string list \<Rightarrow> 'w \<Rightarrow> proc_outcome \<times> 'w"
  json_loads :: "string \<Rightarrow> exn + json option"
  USER_CONTAINER_TEMPLATE :: string

text \<open>
  The state of the process: the world behind the runner, the dictionary
  \<^verbatim>\<open>project_containers\<close>, and a ghost \<open>history\<close> of the commands handed to
  \<^verbatim>\<open>run_docker_command\<close> with their results, in order.
\<close>

record 'w st =
  world :: 'w
  project_containers :: "(string \<times> string) list"
  history :: "(string list \<times> cmd_result) list"

text \<open>The three \<^verbatim>\<open>return\<close>s of \<^verbatim>\<open>run_docker_command\<close>, by what the runner did.\<close>

fun command_result :: "proc_outcome \<Rightarrow> cmd_result" where
  "command_result (Completed rc out err) =
     (if rc = 0 then \<lparr>success = True, outp = strip out, error = strip err\<rparr>
      else \<lparr>success = False, outp = strip out, error = strip err\<rparr>)"
| "command_result (Raised msg) = \<lparr>success = False, outp = [], error = msg\<rparr>"

definition run_docker_command ::
  "'w platform \<Rightarrow> string list \<Rightarrow> 'w st \<Rightarrow> cmd_result \<times> 'w st" where
  "run_docker_command P command s =
     (case subprocess_run P command (world s) of
        (oc, w') \<Rightarrow>
          (command_result oc,
           s\<lparr>world := w', history := history s @ [(command, command_result oc)]\<rparr>))"


text \<open>Sequencing of a computation that may raise.\<close>

definition exn_bind :: "exn + 'a \<Rightarrow> ('a \<Rightarrow> exn + 'b) \<Rightarrow> exn + 'b" where
  "exn_bind x f = (case x of Inl e \<Rightarrow> Inl e | Inr v \<Rightarrow> f v)"

section \<open>Daemon check and image availability guard\<close>

definition check_docker_running :: "'w platform \<Rightarrow> 'w st \<Rightarrow> bool \<times> 'w st" where
  "check_docker_running P s =
     (case run_docker_command P [''docker'', ''info''] s of (result, s1) \<Rightarrow> (success result, s1))"

definition unknown_version :: json where
  "unknown_version = JObj [(''Version'', JStr ''Unknown''), (''ApiVersion'', JStr ''Unknown'')]"

definition get_docker_version :: "'w platform \<Rightarrow> 'w st \<Rightarrow> (exn + json) \<times> 'w st" where
  "get_docker_version P s =
     (case run_docker_command P [''docker'', ''version'', ''--format'', ''json''] s of
        (result, s1) \<Rightarrow>
          (if success result
           then (case json_loads P (outp result) of
                   Inl e \<Rightarrow> Inl e
                 | Inr None \<Rightarrow> Inr unknown_version
                 | Inr (Some v) \<Rightarrow> Inr v)
           else Inr unknown_version, s1))"

definition ensure_base_image_exists :: "'w platform \<Rightarrow> 'w st \<Rightarrow> bool \<times> 'w st" where
  "ensure_base_image_exists P s =
     (case run_docker_command P [''docker'', ''image'', ''inspect'', USER_CONTAINER_TEMPLATE P] s of
        (check_image, s1) \<Rightarrow>
          if \<not> success check_image
          then (case run_docker_command P [''docker'', ''pull'', USER_CONTAINER_TEMPLATE P] s1 of
                  (pull_result, s2) \<Rightarrow>
                    if \<not> success pull_result then (False, s2) else (True, s2))
          else (True, s1))"

section \<open>Container operations\<close>

subsection \<open>Inspect\<close>

text \<open>
  The dictionary returned by \<^verbatim>\<open>get_container_status\<close>: with \<^verbatim>\<open>"success": False\<close>
  it holds \<^verbatim>\<open>error\<close>; with \<^verbatim>\<open>"success": True\<close> it holds \<^verbatim>\<open>status\<close>,
  \<^verbatim>\<open>created\<close>, \<^verbatim>\<open>id\<close> and \<^verbatim>\<open>env\<close>.
\<close>

datatype status_result = StatusError string | StatusOk json json string json

text \<open>\<^verbatim>\<open>status_result.get("status", "unknown")\<close> and \<^verbatim>\<open>status_result.get("env", [])\<close>\<close>

fun get_status :: "status_result \<Rightarrow> json" where
  "get_status (StatusError e) = JStr ''unknown''"
| "get_status (StatusOk st cr i env) = st"

fun get_env :: "status_result \<Rightarrow> json" where
  "get_env (StatusError e) = JArr []"
| "get_env (StatusOk st cr i env) = env"

text \<open>\<^verbatim>\<open>not container_info or len(container_info) == 0\<close>\<close>

fun info_missing :: "json \<Rightarrow> exn + bool" where
  "info_missing (JBool b) =
     (if b then Inl (TypeError (''object of type '' @ quoted ''bool'' @ '' has no len()'')) else Inr True)"
| "info_missing (JInt i) =
     (if i \<noteq> 0 then Inl (TypeError (''object of type '' @ quoted ''int'' @ '' has no len()'')) else Inr True)"
| "info_missing (JFloat r) =
     (if truthy (JFloat r) then Inl (TypeError (''object of type '' @ quoted ''float'' @ '' has no len()''))
      else Inr True)"
| "info_missing v = Inr (\<not> truthy v)"

text \<open>\<^verbatim>\<open>container_info[0]\<close>\<close>

fun index0 :: "json \<Rightarrow> exn + json" where
  "index0 (JArr (x # xs)) = Inr x"
| "index0 (JArr []) = Inl (IndexError ''list index out of range'')"
| "index0 (JStr (c # cs)) = Inr (JStr [c])"
| "index0 (JStr []) = Inl (IndexError ''string index out of range'')"
| "index0 (JObj kvs) = Inl (KeyError ''0'')"
| "index0 v = Inl (TypeError (quoted (type_name v) @ '' object is not subscriptable''))"

text \<open>The \<^verbatim>\<open>try\<close> block of \<^verbatim>\<open>get_container_status\<close> on the text that the inspect printed.\<close>

definition container_info_result :: "'w platform \<Rightarrow> string \<Rightarrow> string \<Rightarrow> exn + status_result" where
  "container_info_result P container_id text =
     (case json_loads P text of
        Inl e \<Rightarrow> Inl e
      | Inr None \<Rightarrow> Inr (StatusError ''Failed to parse container info'')
      | Inr (Some container_info) \<Rightarrow>
          exn_bind (info_missing container_info) (\<lambda>missing.
            if missing then Inr (StatusError ''Container not found'')
            else
              exn_bind (index0 container_info) (\<lambda>container_data.
              exn_bind (py_get container_data ''Config'' (JObj [])) (\<lambda>config.
              exn_bind (py_get config ''Env'' (JArr [])) (\<lambda>env_vars.
              exn_bind (py_get container_data ''State'' (JObj [])) (\<lambda>state.
              exn_bind (py_get state ''Status'' (JStr ''unknown'')) (\<lambda>status.
              exn_bind (py_get container_data ''Created'' (JStr [])) (\<lambda>created.
                Inr (StatusOk status created container_id env_vars)))))))))"

text \<open>What \<^verbatim>\<open>get_container_status\<close> makes of the result of the inspect command.\<close>

definition status_of :: "'w platform \<Rightarrow> string \<Rightarrow> cmd_result \<Rightarrow> exn + status_result" where
  "status_of P container_id result =
     (if \<not> success result
      then Inr (StatusError (''Failed to get container status: '' @ error result))
      else container_info_result P container_id (outp result))"

definition get_container_status ::
  "'w platform \<Rightarrow> string \<Rightarrow> 'w st \<Rightarrow> (exn + status_result) \<times> 'w st" where
  "get_container_status P container_id s =
     (case run_docker_command P [''docker'', ''inspect'', container_id] s of
        (result, s1) \<Rightarrow> (status_of P container_id result, s1))"

subsection \<open>Stop and remove, start\<close>

text \<open>The dictionary returned by \<^verbatim>\<open>stop_and_remove_container\<close>: \<open>None\<close> is success, \<open>Some\<close> holds \<^verbatim>\<open>error\<close>.\<close>

definition stop_and_remove_container ::
  "'w platform \<Rightarrow> string \<Rightarrow> 'w st \<Rightarrow> string option \<times> 'w st" where
  "stop_and_remove_container P container_id s =
     (case run_docker_command P [''docker'', ''stop'', container_id] s of
        (stop_result, s1) \<Rightarrow>
          if \<not> success stop_result
          then (Some (''Failed to stop container: '' @ error stop_result), s1)
          else (case run_docker_command P [''docker'', ''rm'', container_id] s1 of
                  (rm_result, s2) \<Rightarrow>
                    if \<not> success rm_result
                    then (Some (''Failed to remove container: '' @ error rm_result), s2)
                    else (None, s2)))"

definition start_container :: "'w platform \<Rightarrow> string \<Rightarrow> 'w st \<Rightarrow> bool \<times> 'w st" where
  "start_container P container_id s =
     (case run_docker_command P [''docker'', ''start'', container_id] s of
        (result, s1) \<Rightarrow> (success result, s1))"

subsection \<open>Run\<close>

text \<open>The three \<^verbatim>\<open>for\<close> statements of \<^verbatim>\<open>run_container\<close> that extend \<^verbatim>\<open>run_cmd\<close>.\<close>

definition env_flags :: "(string \<times> json) list \<Rightarrow> string list" where
  "env_flags environment =
     concat (map (\<lambda>(key, val). [''-e'', key @ ''='' @ py_str val]) environment)"

definition port_flags :: "(string \<times> json) list \<Rightarrow> string list" where
  "port_flags ports =
     concat (map (\<lambda>(container_port, host_port). [''-p'', py_str host_port @ '':'' @ container_port]) ports)"

definition volume_flags :: "(string \<times> json) list \<Rightarrow> string list" where
  "volume_flags volumes =
     concat (map (\<lambda>(host_path, container_path).
        [''-v'', host_path @ '':'' @
           py_str (case container_path of JObj d \<Rightarrow> dict_get d ''bind'' (JStr []) | _ \<Rightarrow> container_path)])
        volumes)"

text \<open>What the block \<^verbatim>\<open>if command:\<close> adds to \<^verbatim>\<open>run_cmd\<close>.\<close>

fun command_tokens :: "json \<Rightarrow> json list" where
  "command_tokens (JStr c) = (if truthy (JStr c) then [JStr c] else [])"
| "command_tokens (JArr xs) = (if truthy (JArr xs) then xs else [])"
| "command_tokens v = []"

text \<open>
  \<^verbatim>\<open>' '.join(run_cmd)\<close> in the log line raises on the first item that is not a string;
  otherwise every item is a string. The number is the index of the first item.
\<close>

fun str_items :: "nat \<Rightarrow> json list \<Rightarrow> exn + string list" where
  "str_items i [] = Inr []"
| "str_items i (JStr x # xs) = exn_bind (str_items (Suc i) xs) (\<lambda>ys. Inr (x # ys))"
| "str_items i (v # xs) =
     Inl (TypeError (''sequence item '' @ str_nat i @ '': expected str instance, '' @ type_name v @ '' found''))"

text \<open>\<^verbatim>\<open>run_cmd\<close> as \<^verbatim>\<open>run_container\<close> builds it, from the container name to the log line.\<close>

definition build_run_cmd ::
  "string \<Rightarrow> string \<Rightarrow> json \<Rightarrow> json \<Rightarrow> json \<Rightarrow> json \<Rightarrow> exn + string list" where
  "build_run_cmd template project_id environment ports volumes command =
     exn_bind (py_items environment) (\<lambda>env_items.
     exn_bind (py_items ports) (\<lambda>port_items.
     exn_bind (py_items volumes) (\<lambda>volume_items.
       let run_cmd =
             [''docker'', ''run'', ''-d'', ''--name'', ''project-'' @ project_id]
             @ env_flags env_items
             @ port_flags port_items
             @ volume_flags volume_items
             @ [''--label'', ''project_id='' @ project_id, ''--label'', ''managed_by=agent_name_tbd'']
             @ [''--restart'', ''unless-stopped'']
             @ [template]
       in exn_bind (str_items (length run_cmd) (command_tokens command)) (\<lambda>toks.
            Inr (run_cmd @ toks)))))"

text \<open>The dictionary returned by \<^verbatim>\<open>run_container\<close>: \<^verbatim>\<open>error\<close> or \<^verbatim>\<open>container_id\<close>.\<close>

datatype run_result = RunError string | RunOk string

definition or_empty_dict :: "json \<Rightarrow> json" where
  "or_empty_dict v = (if v = JNull then JObj [] else v)"

definition run_container ::
  "'w platform \<Rightarrow> string \<Rightarrow> json \<Rightarrow> json \<Rightarrow> json \<Rightarrow> json \<Rightarrow> 'w st \<Rightarrow> (exn + run_result) \<times> 'w st" where
  "run_container P project_id environment ports volumes command s =
     (case py_setitem (or_empty_dict environment) ''PROJECT_ID'' (JStr project_id) of
        Inl e \<Rightarrow> (Inl e, s)
      | Inr environment' \<Rightarrow>
          (case ensure_base_image_exists P s of
             (image_ok, s1) \<Rightarrow>
               if \<not> image_ok
               then (Inr (RunError (''Failed to ensure base image '' @ USER_CONTAINER_TEMPLATE P @ '' exists'')), s1)
               else
                 (case build_run_cmd (USER_CONTAINER_TEMPLATE P) project_id environment'
                         (or_empty_dict ports) (or_empty_dict volumes) command of
                    Inl e \<Rightarrow> (Inl e, s1)
                  | Inr run_cmd \<Rightarrow>
                      (case run_docker_command P run_cmd s1 of
                         (result, s2) \<Rightarrow>
                           if \<not> success result
                           then (Inr (RunError (''Failed to run container: '' @ error result)), s2)
                           else
                             (case get_container_status P (strip (outp result)) s2 of
                                (Inl e, s3) \<Rightarrow> (Inl e, s3)
                              | (Inr status_result, s3) \<Rightarrow> (Inr (RunOk (strip (outp result))), s3))))))"

section \<open>The HTTP endpoints\<close>

text \<open>A Flask response: \<^verbatim>\<open>jsonify({...}), code\<close>.\<close>

record response =
  code :: nat
  body :: "(string \<times> json) list"

definition jsonify :: "(string \<times> json) list \<Rightarrow> nat \<Rightarrow> response" where
  "jsonify d c = \<lparr>code = c, body = d\<rparr>"

definition error_response :: "string \<Rightarrow> nat \<Rightarrow> response" where
  "error_response msg c = jsonify [(''status'', JStr ''error''), (''message'', JStr msg)] c"

definition daemon_unreachable :: response where
  "daemon_unreachable =
     error_response ''Could not connect to Docker daemon. Please ensure Docker is running.'' 500"

text \<open>The handler \<^verbatim>\<open>except Exception as e\<close> of an endpoint.\<close>

definition except_500 :: "(exn + response) \<times> 'w st \<Rightarrow> response \<times> 'w st" where
  "except_500 r =
     (case r of
        (Inl e, s) \<Rightarrow> (error_response (''Error: '' @ str_exn e) 500, s)
      | (Inr resp, s) \<Rightarrow> (resp, s))"

subsection \<open>GET /api/status\<close>

text \<open>\<^verbatim>\<open>version_info.get("Server", {}).get(key, "Unknown")\<close>\<close>

definition server_field :: "json \<Rightarrow> string \<Rightarrow> exn + json" where
  "server_field version_info key =
     exn_bind (py_get version_info ''Server'' (JObj [])) (\<lambda>server. py_get server key (JStr ''Unknown''))"

text \<open>This endpoint has no \<^verbatim>\<open>try\<close>: an exception leaves it.\<close>

definition get_docker_status :: "'w platform \<Rightarrow> 'w st \<Rightarrow> (exn + response) \<times> 'w st" where
  "get_docker_status P s =
     (case check_docker_running P s of
        (running, s1) \<Rightarrow>
          if \<not> running then (Inr daemon_unreachable, s1)
          else
            (case get_docker_version P s1 of
               (Inl e, s2) \<Rightarrow> (Inl e, s2)
             | (Inr version_info, s2) \<Rightarrow>
                 (case ensure_base_image_exists P s2 of
                    (base_image_available, s3) \<Rightarrow>
                      (exn_bind (server_field version_info ''Version'') (\<lambda>version.
                       exn_bind (server_field version_info ''ApiVersion'') (\<lambda>api_version.
                         Inr (jsonify
                           [(''status'', JStr ''success''),
                            (''message'', JStr ''Docker daemon is accessible''),
                            (''version'', version),
                            (''api_version'', api_version),
                            (''method'', JStr ''Docker CLI''),
                            (''base_image'', JStr (USER_CONTAINER_TEMPLATE P)),
                            (''base_image_available'', JBool base_image_available)] 200))), s3))))"

subsection \<open>POST /api/containers/<project_id>\<close>

text \<open>
  The request data read from the body: \<^verbatim>\<open>request.get_json(silent=True) or {}\<close>, the
  four \<^verbatim>\<open>data.get\<close>, the test that the environment is a dictionary, and the
  assignment of \<^verbatim>\<open>PROJECT_ID\<close>. \<open>request_json\<close> is what \<^verbatim>\<open>get_json\<close> returns,
  \<open>JNull\<close> when there is no JSON body.
\<close>

definition request_config :: "string \<Rightarrow> json \<Rightarrow> exn + (json \<times> json \<times> json \<times> json)" where
  "request_config project_id request_json =
     (let data = (if truthy request_json then request_json else JObj []) in
      exn_bind (py_get data ''environment'' (JObj [])) (\<lambda>environment.
      exn_bind (py_get data ''volumes'' (JObj [])) (\<lambda>volumes.
      exn_bind (py_get data ''ports'' (JObj [])) (\<lambda>ports.
      exn_bind (py_get data ''command'' JNull) (\<lambda>command.
      exn_bind (py_setitem (if is_dict environment then environment else JObj [])
                  ''PROJECT_ID'' (JStr project_id)) (\<lambda>environment'.
        Inr (environment', ports, volumes, command)))))))"

text \<open>The three success responses of \<^verbatim>\<open>create_or_run_container\<close>, as the source writes them.\<close>

definition restarted_response :: "string \<Rightarrow> string \<Rightarrow> status_result \<Rightarrow> response" where
  "restarted_response project_id container_id new_status =
     jsonify
       [(''status'', JStr ''success''),
        (''message'', JStr (''Container for project '' @ project_id @ '' restarted'')),
        (''container_id'', JStr container_id),
        (''container_status'', get_status new_status),
        (''environment'', get_env new_status)] 200"

definition already_running_response :: "string \<Rightarrow> string \<Rightarrow> status_result \<Rightarrow> response" where
  "already_running_response project_id container_id status_result =
     jsonify
       [(''status'', JStr ''success''),
        (''message'', JStr (''Container for project '' @ project_id @ '' is already running'')),
        (''container_id'', JStr container_id),
        (''container_status'', get_status status_result),
        (''environment'', get_env status_result)] 200"

definition created_response ::
  "'w platform \<Rightarrow> string \<Rightarrow> string \<Rightarrow> status_result \<Rightarrow> response" where
  "created_response P project_id container_id status_result =
     jsonify
       [(''status'', JStr ''success''),
        (''message'', JStr (''Container created for project '' @ project_id)),
        (''project_id'', JStr project_id),
        (''container_id'', JStr container_id),
        (''base_image'', JStr (USER_CONTAINER_TEMPLATE P)),
        (''container_status'', get_status status_result),
        (''environment'', get_env status_result)] 201"

text \<open>The rest of the \<^verbatim>\<open>try\<close> block once no container is reused: the fresh run.\<close>

definition create_new_container ::
  "'w platform \<Rightarrow> string \<Rightarrow> json \<Rightarrow> 'w st \<Rightarrow> (exn + response) \<times> 'w st" where
  "create_new_container P project_id request_json s =
     (case request_config project_id request_json of
        Inl e \<Rightarrow> (Inl e, s)
      | Inr (environment, ports, volumes, command) \<Rightarrow>
          (case run_container P project_id environment ports volumes command s of
             (Inl e, s1) \<Rightarrow> (Inl e, s1)
           | (Inr (RunError err), s1) \<Rightarrow> (Inr (error_response err 500), s1)
           | (Inr (RunOk container_id), s1) \<Rightarrow>
               (case get_container_status P container_id
                       (s1\<lparr>project_containers :=
                             AList.update project_id container_id (project_containers s1)\<rparr>) of
                  (Inl e, s2) \<Rightarrow> (Inl e, s2)
                | (Inr status_result, s2) \<Rightarrow>
                    (Inr (created_response P project_id container_id status_result), s2))))"

text \<open>The \<^verbatim>\<open>try\<close> block of \<^verbatim>\<open>create_or_run_container\<close>.\<close>

definition create_or_run_try ::
  "'w platform \<Rightarrow> string \<Rightarrow> json \<Rightarrow> 'w st \<Rightarrow> (exn + response) \<times> 'w st" where
  "create_or_run_try P project_id request_json s =
     (case check_docker_running P s of
        (running, s1) \<Rightarrow>
          if \<not> running then (Inr daemon_unreachable, s1)
          else
            (case ensure_base_image_exists P s1 of
               (image_ok, s2) \<Rightarrow>
                 if \<not> image_ok
                 then (Inr (error_response
                         (''Base Docker image '' @ USER_CONTAINER_TEMPLATE P
                            @ '' not available. Check your registry access.'') 500), s2)
                 else
                   (case map_of (project_containers s2) project_id of
                      None \<Rightarrow> create_new_container P project_id request_json s2
                    | Some container_id \<Rightarrow>
                        (case get_container_status P container_id s2 of
                           (Inl e, s3) \<Rightarrow> (Inl e, s3)
                         | (Inr (StatusError err), s3) \<Rightarrow>
                             create_new_container P project_id request_json s3
                         | (Inr (StatusOk st cr i env), s3) \<Rightarrow>
                             if st \<noteq> JStr ''running''
                             then
                               (case start_container P container_id s3 of
                                  (started, s4) \<Rightarrow>
                                    if started
                                    then
                                      (case get_container_status P container_id s4 of
                                         (Inl e, s5) \<Rightarrow> (Inl e, s5)
                                       | (Inr new_status, s5) \<Rightarrow>
                                           (Inr (restarted_response project_id container_id new_status), s5))
                                    else create_new_container P project_id request_json s4)
                             else
                               (Inr (already_running_response project_id container_id
                                       (StatusOk st cr i env)), s3)))))"

definition create_or_run_container ::
  "'w platform \<Rightarrow> string \<Rightarrow> json \<Rightarrow> 'w st \<Rightarrow> response \<times> 'w st" where
  "create_or_run_container P project_id request_json s =
     except_500 (create_or_run_try P project_id request_json s)"

subsection \<open>DELETE /api/containers/<project_id>\<close>

text \<open>Nothing in the \<^verbatim>\<open>try\<close> block of \<^verbatim>\<open>stop_container\<close> raises, so its handler is left out.\<close>

definition stop_container :: "'w platform \<Rightarrow> string \<Rightarrow> 'w st \<Rightarrow> response \<times> 'w st" where
  "stop_container P project_id s =
     (case check_docker_running P s of
        (running, s1) \<Rightarrow>
          if \<not> running then (daemon_unreachable, s1)
          else
            (case map_of (project_containers s1) project_id of
               None \<Rightarrow> (error_response (''No container found for project '' @ project_id) 404, s1)
             | Some container_id \<Rightarrow>
                 (case stop_and_remove_container P container_id s1 of
                    (None, s2) \<Rightarrow>
                      (jsonify
                         [(''status'', JStr ''success''),
                          (''message'', JStr (''Container for project '' @ project_id @ '' stopped and removed''))] 200,
                       s2\<lparr>project_containers := AList.delete project_id (project_containers s2)\<rparr>)
                  | (Some err, s2) \<Rightarrow>
                      if str_contains ''No such container'' err
                      then
                        (jsonify
                           [(''status'', JStr ''warning''),
                            (''message'', JStr (''Container for project '' @ project_id
                                @ '' not found in Docker, but record cleaned''))] 200,
                         s2\<lparr>project_containers := AList.delete project_id (project_containers s2)\<rparr>)
                      else (error_response err 500, s2))))"

subsection \<open>GET /api/containers\<close>

text \<open>The two dictionaries that \<^verbatim>\<open>list_containers\<close> stores under a project.\<close>

fun list_entry :: "'w platform \<Rightarrow> string \<Rightarrow> status_result \<Rightarrow> json" where
  "list_entry P container_id (StatusOk st cr i env) =
     JObj [(''container_id'', JStr container_id),
           (''base_image'', JStr (USER_CONTAINER_TEMPLATE P)),
           (''status'', st),
           (''created'', cr),
           (''environment'', get_env (StatusOk st cr i env))]"
| "list_entry P container_id (StatusError err) =
     JObj [(''container_id'', JStr container_id),
           (''base_image'', JStr (USER_CONTAINER_TEMPLATE P)),
           (''status'', JStr ''not_found''),
           (''error'', JStr ''Container exists in records but not in Docker'')]"

text \<open>The iteration over \<^verbatim>\<open>project_containers.items()\<close>, with \<open>result\<close> as built so far.\<close>

fun list_loop ::
  "'w platform \<Rightarrow> (string \<times> string) list \<Rightarrow> (string \<times> json) list \<Rightarrow> 'w st
     \<Rightarrow> (exn + (string \<times> json) list) \<times> 'w st" where
  "list_loop P [] result s = (Inr result, s)"
| "list_loop P ((project_id, container_id) # rest) result s =
     (case get_container_status P container_id s of
        (Inl e, s1) \<Rightarrow> (Inl e, s1)
      | (Inr container_status, s1) \<Rightarrow>
          list_loop P rest
            (AList.update project_id (list_entry P container_id container_status) result) s1)"

definition list_containers_try :: "'w platform \<Rightarrow> 'w st \<Rightarrow> (exn + response) \<times> 'w st" where
  "list_containers_try P s =
     (case check_docker_running P s of
        (running, s1) \<Rightarrow>
          if \<not> running then (Inr daemon_unreachable, s1)
          else
            (case list_loop P (project_containers s1) [] s1 of
               (Inl e, s2) \<Rightarrow> (Inl e, s2)
             | (Inr result, s2) \<Rightarrow>
                 (Inr (jsonify [(''status'', JStr ''success''), (''containers'', JObj result)] 200), s2)))"

definition list_containers :: "'w platform \<Rightarrow> 'w st \<Rightarrow> response \<times> 'w st" where
  "list_containers P s = except_500 (list_containers_try P s)"

subsection \<open>GET /api/containers/<project_id>\<close>

definition get_container_status_endpoint_try ::
  "'w platform \<Rightarrow> string \<Rightarrow> 'w st \<Rightarrow> (exn + response) \<times> 'w st" where
  "get_container_status_endpoint_try P project_id s =
     (case check_docker_running P s of
        (running, s1) \<Rightarrow>
          if \<not> running then (Inr daemon_unreachable, s1)
          else
            (case map_of (project_containers s1) project_id of
               None \<Rightarrow> (Inr (error_response (''No container found for project '' @ project_id) 404), s1)
             | Some container_id \<Rightarrow>
                 (case get_container_status P container_id s1 of
                    (Inl e, s2) \<Rightarrow> (Inl e, s2)
                  | (Inr (StatusOk st cr i env), s2) \<Rightarrow>
                      (Inr (jsonify
                         [(''status'', JStr ''success''),
                          (''project_id'', JStr project_id),
                          (''container_id'', JStr container_id),
                          (''base_image'', JStr (USER_CONTAINER_TEMPLATE P)),
                          (''container_status'', st),
                          (''created'', cr),
                          (''environment'', get_env (StatusOk st cr i env))] 200), s2)
                  | (Inr (StatusError err), s2) \<Rightarrow>
                      (Inr (error_response
                         (''Container for project '' @ project_id @ '' exists in records but not in Docker'') 404),
                       s2))))"

definition get_container_status_endpoint ::
  "'w platform \<Rightarrow> string \<Rightarrow> 'w st \<Rightarrow> response \<times> 'w st" where
  "get_container_status_endpoint P project_id s =
     except_500 (get_container_status_endpoint_try P project_id s)"

subsection \<open>The service as a transition system\<close>

datatype request =
    GetDockerStatus
  | CreateOrRun string json
  | StopContainer string
  | ListContainers
  | GetContainerStatus string

text \<open>One request served; \<open>Inl\<close> is an exception that no handler of the program catches.\<close>

fun serve :: "'w platform \<Rightarrow> request \<Rightarrow> 'w st \<Rightarrow> (exn + response) \<times> 'w st" where
  "serve P GetDockerStatus s = get_docker_status P s"
| "serve P (CreateOrRun project_id request_json) s =
     (case create_or_run_container P project_id request_json s of (r, s') \<Rightarrow> (Inr r, s'))"
| "serve P (StopContainer project_id) s =
     (case stop_container P project_id s of (r, s') \<Rightarrow> (Inr r, s'))"
| "serve P ListContainers s =
     (case list_containers P s of (r, s') \<Rightarrow> (Inr r, s'))"
| "serve P (GetContainerStatus project_id) s =
     (case get_container_status_endpoint P project_id s of (r, s') \<Rightarrow> (Inr r, s'))"

section \<open>Observations on a run of the program\<close>

text \<open>A string has no white space at either end.\<close>

definition trimmed :: "string \<Rightarrow> bool" where
  "trimmed s = (s = [] \<or> (\<not> py_isspace (hd s) \<and> \<not> py_isspace (last s)))"

text \<open>A command that asks the runtime for a new container.\<close>

definition is_run :: "string list \<Rightarrow> bool" where
  "is_run c = (take 2 c = [''docker'', ''run''])"

definition runs :: "(string list \<times> cmd_result) list \<Rightarrow> (string list \<times> cmd_result) list" where
  "runs new = filter (\<lambda>(c, x). is_run c) new"

text \<open>The commands handed to the executor between two states.\<close>

definition issued :: "'w st \<Rightarrow> 'w st \<Rightarrow> (string list \<times> cmd_result) list" where
  "issued s s' = drop (length (history s)) (history s')"

text \<open>From \<open>s\<close> to \<open>s'\<close> the registry is the same and the commands \<open>new\<close> were issued.\<close>

definition grows :: "'w st \<Rightarrow> 'w st \<Rightarrow> (string list \<times> cmd_result) list \<Rightarrow> bool" where
  "grows s s' new = (project_containers s' = project_containers s \<and> history s' = history s @ new)"

text \<open>
  The command that \<^verbatim>\<open>run_container\<close> builds from its arguments, and the one that
  the fresh run of a request builds.
\<close>

definition run_container_cmd ::
  "'w platform \<Rightarrow> string \<Rightarrow> json \<Rightarrow> json \<Rightarrow> json \<Rightarrow> json \<Rightarrow> exn + string list" where
  "run_container_cmd P pid env ports vols cmd =
     exn_bind (py_setitem (or_empty_dict env) ''PROJECT_ID'' (JStr pid)) (\<lambda>env'.
       build_run_cmd (USER_CONTAINER_TEMPLATE P) pid env' (or_empty_dict ports) (or_empty_dict vols) cmd)"

definition fresh_run_cmd :: "'w platform \<Rightarrow> string \<Rightarrow> json \<Rightarrow> exn + string list" where
  "fresh_run_cmd P pid rq =
     exn_bind (request_config pid rq) (\<lambda>(env, ports, vols, cmd).
       run_container_cmd P pid env ports vols cmd)"

text \<open>
  The run commands \<open>rs\<close> that a call of \<^verbatim>\<open>run_container\<close> can have issued, by its
  result; \<open>built\<close> is the command it builds.
\<close>

definition run_effect ::
  "exn + string list \<Rightarrow> (exn + run_result) \<Rightarrow> (string list \<times> cmd_result) list \<Rightarrow> bool" where
  "run_effect built r rs =
     ((\<forall>c x. (c, x) \<in> set rs \<longrightarrow> built = Inr c) \<and>
      (case r of
         Inr (RunOk h) \<Rightarrow> \<exists>c x. rs = [(c, x)] \<and> success x \<and> h = strip (outp x)
       | Inr (RunError err) \<Rightarrow> rs = [] \<or> (\<exists>c x. rs = [(c, x)] \<and> \<not> success x)
       | Inl e \<Rightarrow> rs = [] \<or> (\<exists>c x. rs = [(c, x)] \<and> success x)))"

text \<open>
  The ways a create-or-run request can end, with the registry before and after and the
  run commands \<open>rs\<close> it issued: the registry is as before (an error response, a reused
  container, or an exception), or one run succeeded and its handle was stored. A run
  command is the one built from the request.
\<close>

definition create_outcome ::
  "'w platform \<Rightarrow> string \<Rightarrow> exn + string list \<Rightarrow> (string \<times> string) list \<Rightarrow> (exn + response)
     \<Rightarrow> (string \<times> string) list \<Rightarrow> (string list \<times> cmd_result) list \<Rightarrow> bool" where
  "create_outcome P pid built reg r reg' rs =
     ((\<forall>c x. (c, x) \<in> set rs \<longrightarrow> built = Inr c) \<and>
      ((reg' = reg \<and>
        (case r of
           Inl e \<Rightarrow> rs = [] \<or> (\<exists>c x. rs = [(c, x)] \<and> success x)
         | Inr resp \<Rightarrow>
             ((\<exists>err. resp = error_response err 500) \<and>
                (rs = [] \<or> (\<exists>c x. rs = [(c, x)] \<and> \<not> success x)))
             \<or> (rs = [] \<and>
                  (\<exists>h sr. map_of reg pid = Some h \<and>
                     (resp = restarted_response pid h sr \<or> resp = already_running_response pid h sr)))))
      \<or> (\<exists>c x. rs = [(c, x)] \<and> success x \<and>
            reg' = AList.update pid (strip (outp x)) reg \<and>
            (\<forall>resp. r = Inr resp \<longrightarrow> (\<exists>sr. resp = created_response P pid (strip (outp x)) sr)))))"

section \<open>A scripted runtime for concrete runs\<close>

text \<open>
  A runner that answers by the whole command or else by its first two words, from a table,
  and with \<open>dflt\<close> otherwise; its world is empty. \<open>demo_json\<close> reads the three inspect outputs
  used below.
\<close>

definition running_text :: string where
  \<open>running_text = ''[{"State": {"Status": "running"}}]''\<close>

definition exited_text :: string where
  \<open>exited_text = ''[{"State": {"Status": "exited"}}]''\<close>

definition demo_json :: "string \<Rightarrow> exn + json option" where
  "demo_json text =
     (if text = running_text
      then Inr (Some (JArr [JObj [(''State'', JObj [(''Status'', JStr ''running'')])]]))
      else if text = exited_text
      then Inr (Some (JArr [JObj [(''State'', JObj [(''Status'', JStr ''exited'')])]]))
      else if text = ''[]'' then Inr (Some (JArr []))
      else Inr None)"

definition scripted :: "(string list \<times> proc_outcome) list \<Rightarrow> proc_outcome \<Rightarrow> unit platform" where
  "scripted tbl dflt =
     \<lparr>subprocess_run =
        (\<lambda>c w. (case map_of tbl c of
                    Some oc \<Rightarrow> oc
                  | None \<Rightarrow> (case map_of tbl (take 2 c) of Some oc \<Rightarrow> oc | None \<Rightarrow> dflt), w)),
      json_loads = demo_json,
      USER_CONTAINER_TEMPLATE = ''base:latest''\<rparr>"

definition init_state :: "(string \<times> string) list \<Rightarrow> unit st" where
  "init_state reg = \<lparr>world = (), project_containers = reg, history = []\<rparr>"

text \<open>The daemon does not answer: every command ends with return code 1.\<close>

definition daemon_down :: "unit platform" where
  "daemon_down = scripted [] (Completed 1 [] ''Cannot connect to the Docker daemon'')"

text \<open>A runtime where every command succeeds: a run prints the handle h1, an inspect reports it running.\<close>

definition runtime_up :: "unit platform" where
  "runtime_up = scripted
     [([''docker'', ''info''], Completed 0 [] []),
      ([''docker'', ''image''], Completed 0 ''[]'' []),
      ([''docker'', ''run''], Completed 0 (''h1'' @ [CHR 0x0A]) []),
      ([''docker'', ''inspect''], Completed 0 running_text []),
      ([''docker'', ''stop''], Completed 0 ''h1'' []),
      ([''docker'', ''rm''], Completed 0 ''h1'' [])]
     (Completed 1 [] ''unknown command'')"

text \<open>
  The daemon answers and the container h1 is running, but the base image is neither
  present nor can it be pulled.
\<close>

definition image_gone :: "unit platform" where
  "image_gone = scripted
     [([''docker'', ''info''], Completed 0 [] []),
      ([''docker'', ''inspect''], Completed 0 running_text [])]
     (Completed 1 [] ''Error response from daemon: not found'')"

text \<open>
  The daemon answers and the image is there, a run prints the handle h2, and no container
  is known to the runtime: every inspect fails.
\<close>

definition stale_runtime :: "unit platform" where
  "stale_runtime = scripted
     [([''docker'', ''info''], Completed 0 [] []),
      ([''docker'', ''image''], Completed 0 ''[]'' []),
      ([''docker'', ''run''], Completed 0 ''h2'' [])]
     (Completed 1 [] ''Error: No such object'')"

text \<open>The daemon answers; no container is known and the base image cannot be had.\<close>

definition stale_no_image :: "unit platform" where
  "stale_no_image = scripted
     [([''docker'', ''info''], Completed 0 [] [])]
     (Completed 1 [] ''Error: No such object'')"

text \<open>The container h1 is running and no other container is known to the runtime.\<close>

definition one_running :: "unit platform" where
  "one_running = scripted
     [([''docker'', ''info''], Completed 0 [] []),
      ([''docker'', ''inspect'', ''h1''], Completed 0 running_text [])]
     (Completed 1 [] ''Error: No such object'')"

text \<open>
  What one turn of the loop of \<^verbatim>\<open>list_containers\<close> does for a registry item, given
  the result \<open>fst xr\<close> of its inspect command and the status \<open>snd xr\<close> made of it: the
  command it issues and the entry it stores.
\<close>

definition inspect_of :: "string \<times> string \<Rightarrow> cmd_result \<times> status_result \<Rightarrow> string list \<times> cmd_result" where
  "inspect_of ph xr = ([''docker'', ''inspect'', snd ph], fst xr)"

definition entry_of ::
  "'w platform \<Rightarrow> string \<times> string \<Rightarrow> cmd_result \<times> status_result \<Rightarrow> string \<times> json" where
  "entry_of P ph xr = (fst ph, list_entry P (snd ph) (snd xr))"

text \<open>A field of an entry: \<^verbatim>\<open>entry[k]\<close>, \<open>JNull\<close> when there is none.\<close>

definition entry_field :: "json \<Rightarrow> string \<Rightarrow> json" where
  "entry_field e k = (case e of JObj d \<Rightarrow> dict_get d k JNull | _ \<Rightarrow> JNull)"

text \<open>
  The \<^verbatim>\<open>-e\<close> arguments for a caller's environment \<open>d\<close> with distinct keys: every pair
  in its place, with the value of \<^verbatim>\<open>PROJECT_ID\<close> replaced by the project, and
  \<^verbatim>\<open>PROJECT_ID\<close> added last when the caller did not give it.
\<close>

definition merged_env_flags :: "string \<Rightarrow> (string \<times> json) list \<Rightarrow> string list" where
  "merged_env_flags pid d =
     concat (map (\<lambda>(k, v). [''-e'', k @ ''='' @ (if k = ''PROJECT_ID'' then pid else py_str v)]) d)
     @ (if ''PROJECT_ID'' \<in> fst ` set d then [] else [''-e'', ''PROJECT_ID='' @ pid])"

text \<open>The container h1 exists but has exited; a start succeeds.\<close>

definition stopped_runtime :: "unit platform" where
  "stopped_runtime = scripted
     [([''docker'', ''info''], Completed 0 [] []),
      ([''docker'', ''image''], Completed 0 ''[]'' []),
      ([''docker'', ''inspect''], Completed 0 exited_text []),
      ([''docker'', ''start''], Completed 0 ''h1'' [])]
     (Completed 1 [] ''unknown command'')"

text \<open>
  The name that an argument \<^verbatim>\<open>NAME=value\<close> of \<^verbatim>\<open>-e\<close> gives: the text before
  its first \<^verbatim>\<open>=\<close>.
\<close>

definition env_arg_name :: "string \<Rightarrow> string" where
  "env_arg_name a = takeWhile (\<lambda>c. c \<noteq> CHR ''='') a"

section \<open>Properties of the executor\<close>

lemma strip_trimmed: "trimmed (strip s)"
proof -
  let ?a = "dropWhile py_isspace s"
  let ?b = "dropWhile py_isspace (rev ?a)"
  show ?thesis
  proof (cases "?b = []")
    case True
    then show ?thesis by (simp add: trimmed_def strip_def)
  next
    case False
    then have b: "\<not> py_isspace (hd ?b)"
      by (rule hd_dropWhile)
    have a_ne: "?a \<noteq> []"
    proof
      assume "?a = []"
      then have "?b = []" by (simp only: rev.simps dropWhile.simps)
      with False show False by blast
    qed
    then have a: "\<not> py_isspace (hd ?a)"
      by (rule hd_dropWhile)
    have "?a = rev ?b @ rev (takeWhile py_isspace (rev ?a))"
      by (metis rev_append rev_rev_ident takeWhile_dropWhile_id)
    then have "hd (rev ?b) = hd ?a"
      using False by (metis hd_append2 rev_is_Nil_conv)
    with a b False show ?thesis
      by (simp add: trimmed_def strip_def last_rev)
  qed
qed


section \<open>Effects of the operations on the registry and on the issued commands\<close>

lemma grows_refl: "grows s s []" by (simp add: grows_def)
lemma grows_trans: "grows s s1 a \<Longrightarrow> grows s1 s2 b \<Longrightarrow> grows s s2 (a @ b)"
  by (simp add: grows_def)

lemma runs_append [simp]: "runs (a @ b) = runs a @ runs b"
  by (simp add: runs_def)

lemma runs_Nil [simp]: "runs [] = []"
  by (simp add: runs_def)

lemma runs_Cons: "runs ((c, x) # new) = (if is_run c then (c, x) # runs new else runs new)"
  by (simp add: runs_def)

lemma runs_single: "runs [(c, x)] = (if is_run c then [(c, x)] else [])"
  by (simp add: runs_def)

lemma runs_inspect [simp]: "runs [([''docker'', ''inspect'', cid], x)] = []"
  by (simp add: runs_def is_run_def)

lemma runs_info [simp]: "runs [([''docker'', ''info''], x)] = []"
  by (simp add: runs_def is_run_def)

lemma runs_start [simp]: "runs [([''docker'', ''start'', cid], x)] = []"
  by (simp add: runs_def is_run_def)

lemma run_docker_command_grows:
  "run_docker_command P c s = (r, s') \<Longrightarrow> grows s s' [(c, r)]"
  by (auto simp: run_docker_command_def grows_def split: prod.splits)

lemma check_docker_running_grows:
  "check_docker_running P s = (b, s') \<Longrightarrow> \<exists>r. grows s s' [([''docker'', ''info''], r)] \<and> success r = b"
  by (auto simp: check_docker_running_def split: prod.splits dest: run_docker_command_grows)

lemma ensure_base_image_exists_grows:
  "ensure_base_image_exists P s = (b, s') \<Longrightarrow> \<exists>new. grows s s' new \<and> runs new = []"
  unfolding ensure_base_image_exists_def
  by (auto split: prod.splits if_splits dest!: run_docker_command_grows simp: is_run_def grows_def runs_def)

lemma get_container_status_result:
  "get_container_status P cid s = (r, s') \<Longrightarrow>
     \<exists>x. grows s s' [([''docker'', ''inspect'', cid], x)] \<and> r = status_of P cid x"
  unfolding get_container_status_def
  by (auto split: prod.splits dest!: run_docker_command_grows)

lemma get_container_status_grows:
  "get_container_status P cid s = (r, s') \<Longrightarrow>
     \<exists>x. grows s s' [([''docker'', ''inspect'', cid], x)]"
  by (blast dest: get_container_status_result)

lemma start_container_grows:
  "start_container P cid s = (b, s') \<Longrightarrow> \<exists>x. grows s s' [([''docker'', ''start'', cid], x)]"
  unfolding start_container_def
  by (auto split: prod.splits dest!: run_docker_command_grows)

lemma stop_and_remove_container_grows:
  "stop_and_remove_container P cid s = (r, s') \<Longrightarrow> \<exists>new. grows s s' new \<and> runs new = []"
  unfolding stop_and_remove_container_def
  by (auto split: prod.splits if_splits dest!: run_docker_command_grows simp: is_run_def grows_def runs_def)

lemma get_docker_version_grows:
  "get_docker_version P s = (r, s') \<Longrightarrow> \<exists>new. grows s s' new \<and> runs new = []"
  unfolding get_docker_version_def
  by (auto split: prod.splits if_splits dest!: run_docker_command_grows simp: is_run_def grows_def runs_def)

lemma build_run_cmd_is_run:
  "build_run_cmd t pid env ports vols cmd = Inr c \<Longrightarrow> is_run c"
  unfolding build_run_cmd_def exn_bind_def is_run_def
  by (auto split: sum.splits simp: Let_def)

lemma run_container_grows:
  assumes "run_container P pid env ports vols cmd s = (r, s')"
  shows "\<exists>new. grows s s' new \<and> run_effect (run_container_cmd P pid env ports vols cmd) r (runs new)"
proof (cases "py_setitem (or_empty_dict env) ''PROJECT_ID'' (JStr pid)")
  case (Inl e)
  with assms show ?thesis
    by (auto simp: run_container_def run_effect_def intro!: exI[of _ "[]"] grows_refl)
next
  case (Inr env')
  obtain ok s1 where g: "ensure_base_image_exists P s = (ok, s1)" by (cases "ensure_base_image_exists P s")
  from ensure_base_image_exists_grows[OF g] obtain n1 where
    n1: "grows s s1 n1" "runs n1 = []" by auto
  show ?thesis
  proof (cases ok)
    case False
    with assms Inr g n1 show ?thesis
      by (auto simp: run_container_def run_effect_def)
  next
    case True
    show ?thesis
    proof (cases "build_run_cmd (USER_CONTAINER_TEMPLATE P) pid env' (or_empty_dict ports) (or_empty_dict vols) cmd")
      case (Inl e)
      with assms Inr g n1 True show ?thesis
        by (auto simp: run_container_def run_effect_def)
    next
      case b: (Inr run_cmd)
      have built: "run_container_cmd P pid env ports vols cmd = Inr run_cmd"
        using Inr b by (simp add: run_container_cmd_def exn_bind_def)
      obtain x s2 where x: "run_docker_command P run_cmd s1 = (x, s2)" by (cases "run_docker_command P run_cmd s1")
      from run_docker_command_grows[OF x] have n2: "grows s1 s2 [(run_cmd, x)]" .
      have ir: "is_run run_cmd" using b by (rule build_run_cmd_is_run)
      show ?thesis
      proof (cases "success x")
        case False
        with assms Inr g True b x have "r = Inr (RunError (''Failed to run container: '' @ error x))" "s' = s2"
          by (auto simp: run_container_def)
        moreover have "grows s s2 (n1 @ [(run_cmd, x)])" using n1(1) n2 by (rule grows_trans)
        moreover have "runs (n1 @ [(run_cmd, x)]) = [(run_cmd, x)]" using n1 ir by (simp add: runs_single)
        ultimately show ?thesis using False built
          by (intro exI[of _ "n1 @ [(run_cmd, x)]"]) (simp add: run_effect_def)
      next
        case sx: True
        obtain y s3 where y: "get_container_status P (strip (outp x)) s2 = (y, s3)"
          by (cases "get_container_status P (strip (outp x)) s2")
        from get_container_status_grows[OF y] obtain z where
          n3: "grows s2 s3 [([''docker'', ''inspect'', strip (outp x)], z)]" by blast
        let ?new = "(n1 @ [(run_cmd, x)]) @ [([''docker'', ''inspect'', strip (outp x)], z)]"
        have gr: "grows s s3 ?new"
          using grows_trans[OF grows_trans[OF n1(1) n2] n3] .
        have okr: "runs ?new = [(run_cmd, x)]"
          using n1 ir by (simp add: runs_def is_run_def)
        from assms Inr g True b x sx y have "s' = s3" "(\<exists>e. r = Inl e) \<or> r = Inr (RunOk (strip (outp x)))"
          by (auto simp: run_container_def split: sum.splits)
        then show ?thesis
          using gr okr sx built
          by (intro exI[of _ ?new]) (auto simp del: append_assoc runs_append simp: run_effect_def)
      qed
    qed
  qed
qed

lemma create_new_container_outcome:
  assumes "create_new_container P pid rq s = (r, s')"
  shows "\<exists>new. history s' = history s @ new \<and>
           create_outcome P pid (fresh_run_cmd P pid rq) (project_containers s) r (project_containers s') (runs new)"
proof (cases "request_config pid rq")
  case (Inl e)
  with assms have "r = Inl e" "s' = s" by (auto simp: create_new_container_def)
  then show ?thesis by (intro exI[of _ "[]"]) (simp add: create_outcome_def)
next
  case (Inr cfg)
  obtain env ports vols cmd where cfg: "cfg = (env, ports, vols, cmd)" by (cases cfg) auto
  have fr: "fresh_run_cmd P pid rq = run_container_cmd P pid env ports vols cmd"
    using Inr cfg by (simp add: fresh_run_cmd_def exn_bind_def)
  obtain rr s1 where rc: "run_container P pid env ports vols cmd s = (rr, s1)"
    by (cases "run_container P pid env ports vols cmd s")
  from run_container_grows[OF rc] obtain n1 where
    n1: "grows s s1 n1" "run_effect (fresh_run_cmd P pid rq) rr (runs n1)" unfolding fr by blast
  show ?thesis
  proof (cases rr)
    case (Inl e)
    with assms Inr cfg rc have "r = Inl e" "s' = s1" by (auto simp: create_new_container_def)
    with n1 Inl show ?thesis
      by (intro exI[of _ n1]) (auto simp: create_outcome_def grows_def run_effect_def)
  next
    case rres: (Inr res)
    show ?thesis
    proof (cases res)
      case (RunError err)
      with assms Inr cfg rc rres have "r = Inr (error_response err 500)" "s' = s1"
        by (auto simp: create_new_container_def)
      with n1 rres RunError show ?thesis
        by (intro exI[of _ n1]) (auto simp: create_outcome_def grows_def run_effect_def)
    next
      case (RunOk h)
      let ?s1 = "s1\<lparr>project_containers := AList.update pid h (project_containers s1)\<rparr>"
      obtain y s2 where y: "get_container_status P h ?s1 = (y, s2)"
        by (cases "get_container_status P h ?s1")
      from get_container_status_grows[OF y] obtain z where
        n2: "grows ?s1 s2 [([''docker'', ''inspect'', h], z)]" by blast
      from n1 rres RunOk obtain c x where cx: "runs n1 = [(c, x)]" "success x" "h = strip (outp x)"
        "fresh_run_cmd P pid rq = Inr c"
        by (auto simp: run_effect_def)
      from assms Inr cfg rc rres RunOk y have r: "s' = s2"
        "(\<exists>e. r = Inl e) \<or> (\<exists>sr. r = Inr (created_response P pid h sr))"
        by (auto simp: create_new_container_def split: sum.splits)
      have h: "history s2 = history s @ (n1 @ [([''docker'', ''inspect'', h], z)])"
        using n1(1) n2 by (simp add: grows_def)
      have reg: "project_containers s2 = AList.update pid h (project_containers s)"
        using n1(1) n2 by (simp add: grows_def)
      show ?thesis
        using r h reg cx
        by (intro exI[of _ "n1 @ [([''docker'', ''inspect'', h], z)]"]) (auto simp: create_outcome_def)
    qed
  qed
qed

lemma create_new_container_outcome_from:
  assumes g: "grows s s1 pre" and rp: "runs pre = []"
      and c: "create_new_container P pid rq s1 = (r, s')"
  shows "\<exists>new. history s' = history s @ new \<and>
           create_outcome P pid (fresh_run_cmd P pid rq) (project_containers s) r (project_containers s') (runs new)"
proof -
  from create_new_container_outcome[OF c] obtain new where
    n: "history s' = history s1 @ new" "create_outcome P pid (fresh_run_cmd P pid rq) (project_containers s1) r (project_containers s') (runs new)"
    by blast
  from n(2) g rp have "create_outcome P pid (fresh_run_cmd P pid rq) (project_containers s) r (project_containers s') (runs (pre @ new))"
    by (simp add: grows_def)
  with n(1) g show ?thesis by (intro exI[of _ "pre @ new"]) (simp add: grows_def)
qed


lemma create_or_run_try_outcome:
  assumes "create_or_run_try P pid rq s = (r, s')"
  shows "\<exists>new. history s' = history s @ new \<and>
           create_outcome P pid (fresh_run_cmd P pid rq) (project_containers s) r (project_containers s') (runs new)"
proof -
  obtain running s1 where a: "check_docker_running P s = (running, s1)"
    by (cases "check_docker_running P s")
  from check_docker_running_grows[OF a] obtain x1 where
    g1: "grows s s1 [([''docker'', ''info''], x1)]" by blast
  show ?thesis
  proof (cases running)
    case False
    with assms a have "r = Inr daemon_unreachable" "s' = s1" by (auto simp: create_or_run_try_def)
    with g1 show ?thesis
      by (intro exI[of _ "[([''docker'', ''info''], x1)]"])
         (auto simp: create_outcome_def grows_def daemon_unreachable_def)
  next
    case True
    obtain image_ok s2 where b: "ensure_base_image_exists P s1 = (image_ok, s2)"
      by (cases "ensure_base_image_exists P s1")
    from ensure_base_image_exists_grows[OF b] obtain n2 where
      g2: "grows s1 s2 n2" "runs n2 = []" by blast
    let ?p2 = "[([''docker'', ''info''], x1)] @ n2"
    have p2: "grows s s2 ?p2" "runs ?p2 = []"
      using grows_trans[OF g1 g2(1)] g2(2) by (simp_all add: runs_Cons is_run_def)
    show ?thesis
    proof (cases image_ok)
      case False
      with assms a True b have "\<exists>err. r = Inr (error_response err 500)" "s' = s2"
        by (auto simp: create_or_run_try_def)
      with p2 show ?thesis
        by (intro exI[of _ ?p2]) (auto simp: create_outcome_def grows_def)
    next
      case ok: True
      show ?thesis
      proof (cases "map_of (project_containers s2) pid")
        case None
        with assms a True b ok have "create_new_container P pid rq s2 = (r, s')"
          by (auto simp: create_or_run_try_def)
        from create_new_container_outcome_from[OF p2 this] show ?thesis .
      next
        case (Some h)
        then have reg_h: "map_of (project_containers s) pid = Some h" using p2(1) by (simp add: grows_def)
        obtain y s3 where c: "get_container_status P h s2 = (y, s3)"
          by (cases "get_container_status P h s2")
        from get_container_status_grows[OF c] obtain x3 where
          g3: "grows s2 s3 [([''docker'', ''inspect'', h], x3)]" by blast
        let ?p3 = "?p2 @ [([''docker'', ''inspect'', h], x3)]"
        have p3: "grows s s3 ?p3" "runs ?p3 = []"
          using grows_trans[OF p2(1) g3] p2(2) by (simp_all add: runs_Cons is_run_def)
        show ?thesis
        proof (cases y)
          case (Inl e)
          with assms a True b ok Some c have "r = Inl e" "s' = s3"
            by (auto simp: create_or_run_try_def)
          with p3 show ?thesis
            by (intro exI[of _ ?p3]) (auto simp: create_outcome_def grows_def)
        next
          case (Inr sr)
          show ?thesis
          proof (cases sr)
            case (StatusError err)
            with assms a True b ok Some c Inr have "create_new_container P pid rq s3 = (r, s')"
              by (auto simp: create_or_run_try_def)
            from create_new_container_outcome_from[OF p3 this] show ?thesis .
          next
            case (StatusOk st cr i env)
            show ?thesis
            proof (cases "st = JStr ''running''")
              case run: True
              with assms a True b ok Some c Inr StatusOk
              have "r = Inr (already_running_response pid h sr)" "s' = s3"
                by (auto simp: create_or_run_try_def)
              with p3 reg_h show ?thesis
                by (intro exI[of _ ?p3]) (auto simp: create_outcome_def grows_def)
            next
              case nrun: False
              obtain started s4 where d: "start_container P h s3 = (started, s4)"
                by (cases "start_container P h s3")
              from start_container_grows[OF d] obtain x4 where
                g4: "grows s3 s4 [([''docker'', ''start'', h], x4)]" by blast
              let ?p4 = "?p3 @ [([''docker'', ''start'', h], x4)]"
              have p4: "grows s s4 ?p4" "runs ?p4 = []"
                using grows_trans[OF p3(1) g4] p3(2) by (simp_all add: runs_Cons is_run_def)
              show ?thesis
              proof (cases started)
                case False
                with assms a True b ok Some c Inr StatusOk nrun d
                have "create_new_container P pid rq s4 = (r, s')"
                  by (auto simp: create_or_run_try_def)
                from create_new_container_outcome_from[OF p4 this] show ?thesis .
              next
                case st: True
                obtain y5 s5 where e: "get_container_status P h s4 = (y5, s5)"
                  by (cases "get_container_status P h s4")
                from get_container_status_grows[OF e] obtain x5 where
                  g5: "grows s4 s5 [([''docker'', ''inspect'', h], x5)]" by blast
                let ?p5 = "?p4 @ [([''docker'', ''inspect'', h], x5)]"
                have p5: "grows s s5 ?p5" "runs ?p5 = []"
                  using grows_trans[OF p4(1) g5] p4(2) by (simp_all add: runs_Cons is_run_def)
                from assms a True b ok Some c Inr StatusOk nrun d st e
                have "s' = s5" "(\<exists>e. r = Inl e) \<or> (\<exists>ns. r = Inr (restarted_response pid h ns))"
                  by (auto simp: create_or_run_try_def split: sum.splits)
                with p5 reg_h show ?thesis
                  by (intro exI[of _ ?p5]) (auto simp: create_outcome_def grows_def)
              qed
            qed
          qed
        qed
      qed
    qed
  qed
qed



subsection \<open>How each endpoint can end\<close>

lemma issued_eq: "history s' = history s @ new \<Longrightarrow> issued s s' = new"
  by (simp add: issued_def)

lemma created_response_code: "code (created_response P pid h sr) = 201"
  by (simp add: created_response_def jsonify_def)

lemma reused_response_code:
  "code (restarted_response pid h sr) = 200" "code (already_running_response pid h sr) = 200"
  by (simp_all add: restarted_response_def already_running_response_def jsonify_def)

lemma error_response_code: "code (error_response msg c) = c"
  by (simp add: error_response_def jsonify_def)

text \<open>How a call of the endpoint can end.\<close>

lemma create_or_run_container_outcome:
  assumes "create_or_run_container P pid rq s = (resp, s')"
  shows "history s' = history s @ issued s s' \<and>
         (\<forall>c x. (c, x) \<in> set (runs (issued s s')) \<longrightarrow> fresh_run_cmd P pid rq = Inr c) \<and>
         (((\<exists>msg. resp = error_response msg 500) \<and>
             ((project_containers s' = project_containers s \<and>
                 (runs (issued s s') = [] \<or> (\<exists>c x. runs (issued s s') = [(c, x)])))
              \<or> (\<exists>c x. runs (issued s s') = [(c, x)] \<and> success x \<and>
                    project_containers s' = AList.update pid (strip (outp x)) (project_containers s))))
          \<or> (runs (issued s s') = [] \<and> project_containers s' = project_containers s \<and>
                (\<exists>h sr. map_of (project_containers s) pid = Some h \<and>
                   (resp = restarted_response pid h sr \<or> resp = already_running_response pid h sr)))
          \<or> (\<exists>c x sr. runs (issued s s') = [(c, x)] \<and> success x \<and>
                project_containers s' = AList.update pid (strip (outp x)) (project_containers s) \<and>
                resp = created_response P pid (strip (outp x)) sr))"
proof -
  obtain r where t: "create_or_run_try P pid rq s = (r, s')"
    and e: "except_500 (r, s') = (resp, s')"
    using assms by (cases "create_or_run_try P pid rq s")
      (auto simp: create_or_run_container_def except_500_def split: sum.splits)
  from create_or_run_try_outcome[OF t] obtain new where
    n: "history s' = history s @ new"
       "create_outcome P pid (fresh_run_cmd P pid rq) (project_containers s) r (project_containers s') (runs new)"
    by blast
  have i: "issued s s' = new" using n(1) by (rule issued_eq)
  show ?thesis
  proof (cases r)
    case (Inl ex)
    with e have "resp = error_response (''Error: '' @ str_exn ex) 500" by (simp add: except_500_def)
    with n Inl show ?thesis unfolding i create_outcome_def by auto
  next
    case (Inr rr)
    with e have "resp = rr" by (simp add: except_500_def)
    with n Inr show ?thesis unfolding i create_outcome_def by auto
  qed
qed


lemma stop_container_frame:
  assumes "stop_container P pid s = (resp, s')"
  shows "project_containers s' = project_containers s
         \<or> project_containers s' = AList.delete pid (project_containers s)"
proof -
  obtain running s1 where a: "check_docker_running P s = (running, s1)"
    by (cases "check_docker_running P s")
  from check_docker_running_grows[OF a] have r1: "project_containers s1 = project_containers s"
    by (auto simp: grows_def)
  show ?thesis
  proof (cases "running \<and> map_of (project_containers s1) pid \<noteq> None")
    case False
    with assms a r1 show ?thesis by (auto simp: stop_container_def split: option.splits if_splits)
  next
    case True
    then obtain h where h: "map_of (project_containers s1) pid = Some h" by auto
    obtain res s2 where b: "stop_and_remove_container P h s1 = (res, s2)"
      by (cases "stop_and_remove_container P h s1")
    from stop_and_remove_container_grows[OF b] have r2: "project_containers s2 = project_containers s1"
      by (auto simp: grows_def)
    from assms a True h b r1 r2 show ?thesis
      by (auto simp: stop_container_def split: option.splits if_splits)
  qed
qed

lemma list_loop_frame:
  "list_loop P reg acc s = (r, s') \<Longrightarrow> project_containers s' = project_containers s"
proof (induction reg arbitrary: acc s)
  case Nil
  then show ?case by simp
next
  case (Cons a reg)
  obtain p h where a: "a = (p, h)" by (cases a)
  obtain y s1 where y: "get_container_status P h s = (y, s1)" by (cases "get_container_status P h s")
  from get_container_status_grows[OF y] have f: "project_containers s1 = project_containers s"
    by (auto simp: grows_def)
  show ?case
  proof (cases y)
    case (Inl e)
    with Cons.prems a y f show ?thesis by simp
  next
    case (Inr sr)
    with Cons.prems a y have "list_loop P reg (AList.update p (list_entry P h sr) acc) s1 = (r, s')"
      by simp
    from Cons.IH[OF this] f show ?thesis by simp
  qed
qed

lemma list_containers_frame:
  assumes "list_containers P s = (resp, s')"
  shows "project_containers s' = project_containers s"
proof -
  obtain running s1 where a: "check_docker_running P s = (running, s1)"
    by (cases "check_docker_running P s")
  from check_docker_running_grows[OF a] have r1: "project_containers s1 = project_containers s"
    by (auto simp: grows_def)
  obtain l s2 where b: "list_loop P (project_containers s1) [] s1 = (l, s2)"
    by (cases "list_loop P (project_containers s1) [] s1")
  from list_loop_frame[OF b] have r2: "project_containers s2 = project_containers s1" .
  from assms a b r1 r2 show ?thesis
    by (auto simp: list_containers_def list_containers_try_def except_500_def split: if_splits sum.splits)
qed

lemma get_container_status_endpoint_frame:
  assumes "get_container_status_endpoint P pid s = (resp, s')"
  shows "project_containers s' = project_containers s"
proof -
  obtain running s1 where a: "check_docker_running P s = (running, s1)"
    by (cases "check_docker_running P s")
  from check_docker_running_grows[OF a] have r1: "project_containers s1 = project_containers s"
    by (auto simp: grows_def)
  show ?thesis
  proof (cases "running \<and> map_of (project_containers s1) pid \<noteq> None")
    case False
    with assms a r1 show ?thesis
      by (auto simp: get_container_status_endpoint_def get_container_status_endpoint_try_def
            except_500_def split: option.splits if_splits)
  next
    case True
    then obtain h where h: "map_of (project_containers s1) pid = Some h" by auto
    obtain y s2 where b: "get_container_status P h s1 = (y, s2)"
      by (cases "get_container_status P h s1")
    from get_container_status_grows[OF b] have r2: "project_containers s2 = project_containers s1"
      by (auto simp: grows_def)
    from assms a True h b r1 r2 show ?thesis
      by (auto simp: get_container_status_endpoint_def get_container_status_endpoint_try_def
            except_500_def split: sum.splits status_result.splits)
  qed
qed

lemma get_docker_status_frame:
  assumes "get_docker_status P s = (res, s')"
  shows "project_containers s' = project_containers s"
proof -
  obtain running s1 where a: "check_docker_running P s = (running, s1)"
    by (cases "check_docker_running P s")
  from check_docker_running_grows[OF a] have r1: "project_containers s1 = project_containers s"
    by (auto simp: grows_def)
  obtain v s2 where b: "get_docker_version P s1 = (v, s2)" by (cases "get_docker_version P s1")
  from get_docker_version_grows[OF b] have r2: "project_containers s2 = project_containers s1"
    by (auto simp: grows_def)
  obtain ok s3 where c: "ensure_base_image_exists P s2 = (ok, s3)"
    by (cases "ensure_base_image_exists P s2")
  from ensure_base_image_exists_grows[OF c] have r3: "project_containers s3 = project_containers s2"
    by (auto simp: grows_def)
  from assms a b c r1 r2 r3 show ?thesis
    by (auto simp: get_docker_status_def split: if_splits sum.splits)
qed


subsection \<open>Keys of the registry\<close>

lemma update_new_key:
  "k \<in> fst ` set (AList.update p v al) \<Longrightarrow> k \<notin> fst ` set al \<Longrightarrow> k = p"
  by (induction al) (auto split: if_splits)

lemma update_keeps_keys: "k \<in> fst ` set al \<Longrightarrow> k \<in> fst ` set (AList.update p v al)"
  by (induction al) (auto split: if_splits)

lemma delete_lost_key:
  "k \<in> fst ` set al \<Longrightarrow> k \<notin> fst ` set (AList.delete p al) \<Longrightarrow> k = p"
  by (induction al) (auto split: if_splits)

lemma delete_no_new_key: "k \<in> fst ` set (AList.delete p al) \<Longrightarrow> k \<in> fst ` set al"
  by (induction al) (auto split: if_splits)

lemma map_of_update_same: "map_of (AList.update p v al) p = Some v"
  by (simp add: update_conv')

lemma first_call_handle:
  assumes "create_or_run_container P pid rq0 s0 = (r0, s)" and "code r0 \<noteq> 500"
  shows "\<exists>h. map_of (project_containers s) pid = Some h \<and>
             map_of (body r0) ''container_id'' = Some (JStr h)"
  using create_or_run_container_outcome[OF assms(1)] assms(2)
  by (auto simp: error_response_code restarted_response_def already_running_response_def
        created_response_def jsonify_def map_of_update_same)

lemma create_new_container_run_ok:
  assumes "request_config pid rq = Inr (env, ports, vols, cmd)"
      and "run_container P pid env ports vols cmd s = (Inr (RunOk h'), s1)"
  shows "project_containers (snd (create_new_container P pid rq s))
           = AList.update pid h' (project_containers s)"
proof -
  let ?s1 = "s1\<lparr>project_containers := AList.update pid h' (project_containers s1)\<rparr>"
  from run_container_grows[OF assms(2)] have f: "project_containers s1 = project_containers s"
    by (auto simp: grows_def)
  obtain y s2 where y: "get_container_status P h' ?s1 = (y, s2)"
    by (cases "get_container_status P h' ?s1")
  from get_container_status_grows[OF y] have "project_containers s2 = project_containers ?s1"
    by (auto simp: grows_def)
  with assms y f show ?thesis
    by (auto simp: create_new_container_def split: sum.splits)
qed

lemma snd_except_500: "snd (except_500 r) = snd r"
  by (auto simp: except_500_def split: prod.splits sum.splits)

lemma map_of_delete_same: "map_of (AList.delete k al) k = None"
  by (simp add: delete_conv')

subsection \<open>Stop under a passing daemon check\<close>

lemma stop_container_unfold:
  assumes "check_docker_running P s = (True, s1)"
  shows "stop_container P pid s =
     (case map_of (project_containers s) pid of
        None \<Rightarrow> (error_response (''No container found for project '' @ pid) 404, s1)
      | Some h \<Rightarrow>
          (case stop_and_remove_container P h s1 of
             (None, s2) \<Rightarrow>
               (jsonify
                  [(''status'', JStr ''success''),
                   (''message'', JStr (''Container for project '' @ pid @ '' stopped and removed''))] 200,
                s2\<lparr>project_containers := AList.delete pid (project_containers s)\<rparr>)
           | (Some err, s2) \<Rightarrow>
               if str_contains ''No such container'' err
               then
                 (jsonify
                    [(''status'', JStr ''warning''),
                     (''message'', JStr (''Container for project '' @ pid
                         @ '' not found in Docker, but record cleaned''))] 200,
                  s2\<lparr>project_containers := AList.delete pid (project_containers s)\<rparr>)
               else (error_response err 500, s2\<lparr>project_containers := project_containers s\<rparr>)))"
proof -
  from check_docker_running_grows[OF assms] have r1: "project_containers s1 = project_containers s"
    by (auto simp: grows_def)
  show ?thesis
  proof (cases "map_of (project_containers s) pid")
    case None
    with assms r1 show ?thesis by (simp add: stop_container_def)
  next
    case (Some h)
    obtain res s2 where b: "stop_and_remove_container P h s1 = (res, s2)"
      by (cases "stop_and_remove_container P h s1")
    from stop_and_remove_container_grows[OF b] have r2: "project_containers s2 = project_containers s"
      using r1 by (auto simp: grows_def)
    then have id: "s2\<lparr>project_containers := project_containers s\<rparr> = s2" by (cases s2) simp
    from assms Some b r1 r2 id show ?thesis
      by (simp add: stop_container_def split: option.splits)
  qed
qed

lemma stop_container_200_deletes:
  assumes "check_docker_running P s = (True, s1)" and "code (fst (stop_container P pid s)) = 200"
  shows "project_containers (snd (stop_container P pid s)) = AList.delete pid (project_containers s)"
  using assms(2) unfolding stop_container_unfold[OF assms(1)]
  by (auto simp: error_response_def jsonify_def split: option.splits prod.splits if_splits)

lemma stop_container_absent:
  assumes "check_docker_running P s = (True, s1)" and "map_of (project_containers s) pid = None"
  shows "stop_container P pid s = (error_response (''No container found for project '' @ pid) 404, s1)"
  using assms(2) unfolding stop_container_unfold[OF assms(1)] by simp

lemma serve_keeps_distinct:
  assumes "serve P req s = (res, s')" and "distinct (map fst (project_containers s))"
  shows "distinct (map fst (project_containers s'))"
proof (cases req)
  case GetDockerStatus
  with assms show ?thesis by (auto dest: get_docker_status_frame)
next
  case (CreateOrRun pid rq)
  with assms(1) obtain resp where c: "create_or_run_container P pid rq s = (resp, s')"
    by (auto split: prod.splits)
  from create_or_run_container_outcome[OF c] assms(2) show ?thesis
    by (auto simp: distinct_update)
next
  case (StopContainer pid)
  with assms(1) obtain resp where c: "stop_container P pid s = (resp, s')"
    by (auto split: prod.splits)
  from stop_container_frame[OF c] assms(2) show ?thesis
    by (auto simp: distinct_delete)
next
  case ListContainers
  with assms show ?thesis by (auto split: prod.splits dest: list_containers_frame)
next
  case (GetContainerStatus pid)
  with assms show ?thesis by (auto split: prod.splits dest: get_container_status_endpoint_frame)
qed

subsection \<open>The loop of the listing\<close>

lemma update_fresh_key: "k \<notin> fst ` set al \<Longrightarrow> AList.update k v al = al @ [(k, v)]"
  by (induction al) auto

lemma list_loop_result:
  assumes "list_loop P reg acc s = (Inr res, s')"
      and "distinct (map fst reg)"
      and "fst ` set reg \<inter> fst ` set acc = {}"
  shows "\<exists>trs. list_all2 (\<lambda>ph xr. status_of P (snd ph) (fst xr) = Inr (snd xr)) reg trs \<and>
            history s' = history s @ map2 inspect_of reg trs \<and>
            res = acc @ map2 (entry_of P) reg trs"
  using assms
proof (induction reg arbitrary: acc s)
  case Nil
  then show ?case by simp
next
  case (Cons a reg)
  obtain p h where a: "a = (p, h)" by (cases a)
  obtain y s1 where y: "get_container_status P h s = (y, s1)" by (cases "get_container_status P h s")
  from get_container_status_result[OF y] obtain x where
    x: "history s1 = history s @ [([''docker'', ''inspect'', h], x)]" "y = status_of P h x"
    by (auto simp: grows_def)
  from Cons.prems(1) a y obtain r where r: "y = Inr r"
    and l: "list_loop P reg (AList.update p (list_entry P h r) acc) s1 = (Inr res, s')"
    by (cases y) auto
  from Cons.prems(3) a have "p \<notin> fst ` set acc" by auto
  then have u: "AList.update p (list_entry P h r) acc = acc @ [(p, list_entry P h r)]"
    by (rule update_fresh_key)
  have d: "distinct (map fst reg)" using Cons.prems(2) by simp
  have i: "fst ` set reg \<inter> fst ` set (acc @ [(p, list_entry P h r)]) = {}"
    using Cons.prems(2,3) a by auto
  from Cons.IH[OF l[unfolded u] d i] obtain trs where
    t: "list_all2 (\<lambda>ph xr. status_of P (snd ph) (fst xr) = Inr (snd xr)) reg trs"
       "history s' = history s1 @ map2 inspect_of reg trs"
       "res = (acc @ [(p, list_entry P h r)]) @ map2 (entry_of P) reg trs"
    by blast
  show ?case
    using t x r a
    by (intro exI[of _ "(x, r) # trs"]) (simp add: inspect_of_def entry_of_def)
qed

lemma entry_keys:
  "length reg = length trs \<Longrightarrow> map fst (map2 (entry_of P) reg trs) = map fst reg"
  by (induction reg trs rule: list_induct2) (simp_all add: entry_of_def)

lemma list_containers_code:
  "code (fst (list_containers P s)) = 200 \<or>
     (code (fst (list_containers P s)) = 500 \<and>
      map_of (body (fst (list_containers P s))) ''status'' = Some (JStr ''error''))"
  by (auto simp: list_containers_def list_containers_try_def except_500_def error_response_def
        jsonify_def daemon_unreachable_def split: prod.splits sum.splits)

subsection \<open>The configuration read from a request and the run command\<close>

lemma update_update_same: "AList.update k v (AList.update k w al) = AList.update k v al"
  by (induction al) auto

lemma request_config_dict:
  assumes "b \<noteq> []"
  shows "request_config pid (JObj b) =
     Inr (JObj (AList.update ''PROJECT_ID'' (JStr pid)
                  (case dict_get b ''environment'' (JObj []) of JObj d \<Rightarrow> d | _ \<Rightarrow> [])),
          dict_get b ''ports'' (JObj []), dict_get b ''volumes'' (JObj []),
          dict_get b ''command'' JNull)"
  using assms
  by (cases "dict_get b ''environment'' (JObj [])")
     (simp_all add: request_config_def exn_bind_def Let_def)

lemma build_run_cmd_shape:
  assumes "build_run_cmd t pid (JObj e) ports vols cmd = Inr c"
  shows "\<exists>rest. c = [''docker'', ''run'', ''-d'', ''--name'', ''project-'' @ pid] @ env_flags e @ rest"
  using assms unfolding build_run_cmd_def exn_bind_def
  by (auto split: sum.splits simp: Let_def)

lemma merged_no_key:
  "''PROJECT_ID'' \<notin> fst ` set d \<Longrightarrow>
     concat (map (\<lambda>(k, v). [''-e'', k @ ''='' @ (if k = ''PROJECT_ID'' then pid else py_str v)]) d)
       = env_flags d"
  by (induction d) (auto simp: env_flags_def)

lemma env_flags_update:
  "distinct (map fst d) \<Longrightarrow>
     env_flags (AList.update ''PROJECT_ID'' (JStr pid) d) = merged_env_flags pid d"
proof (induction d)
  case Nil
  then show ?case by (simp add: env_flags_def merged_env_flags_def)
next
  case (Cons a d)
  obtain k v where a: "a = (k, v)" by (cases a)
  show ?case
  proof (cases "k = ''PROJECT_ID''")
    case True
    with Cons.prems a have n: "''PROJECT_ID'' \<notin> fst ` set d" by auto
    have "env_flags (AList.update ''PROJECT_ID'' (JStr pid) (a # d))
            = [''-e'', ''PROJECT_ID'' @ ''='' @ pid] @ env_flags d"
      using True a by (simp add: env_flags_def)
    moreover have "merged_env_flags pid (a # d)
            = [''-e'', ''PROJECT_ID'' @ ''='' @ pid] @ env_flags d"
      using True a merged_no_key[OF n, of pid] by (simp add: merged_env_flags_def)
    ultimately show ?thesis by simp
  next
    case False
    from Cons.prems have "distinct (map fst d)" by simp
    from Cons.IH[OF this] False a show ?thesis
      by (simp add: env_flags_def merged_env_flags_def)
  qed
qed

lemma str_items_strs: "str_items i (map JStr xs) = Inr xs"
  by (induction xs arbitrary: i) (simp_all add: exn_bind_def)

lemma build_run_cmd_tokens:
  assumes "\<And>n. str_items n (command_tokens cmd) = Inr toks"
  shows "build_run_cmd t pid env ports vols cmd
           = exn_bind (build_run_cmd t pid env ports vols JNull) (\<lambda>run_cmd. Inr (run_cmd @ toks))"
  using assms unfolding build_run_cmd_def exn_bind_def
  by (simp add: Let_def split: sum.splits)

lemma build_run_cmd_no_command_last:
  "build_run_cmd t pid env ports vols JNull = Inr c \<Longrightarrow> last c = t"
  unfolding build_run_cmd_def exn_bind_def
  by (auto simp: Let_def split: sum.splits)

subsection \<open>The environment arguments of a run\<close>

lemma env_flags_Cons:
  "env_flags ((k, v) # e) = [''-e'', k @ ''='' @ py_str v] @ env_flags e"
  by (simp add: env_flags_def)

lemma env_arg_name_pair: "env_arg_name (k @ CHR ''='' # v) = env_arg_name k"
  by (induction k) (simp_all add: env_arg_name_def)

lemma env_arg_name_project_id_pair: "env_arg_name (''PROJECT_ID'' @ CHR ''='' # v) = ''PROJECT_ID''"
  by (simp add: env_arg_name_def)

lemma env_arg_name_flag: "env_arg_name ''-e'' \<noteq> ''PROJECT_ID''"
  by (simp add: env_arg_name_def)

lemma env_arg_name_project_id: "env_arg_name ''PROJECT_ID'' = ''PROJECT_ID''"
  by (simp add: env_arg_name_def)

lemma no_project_id_name:
  assumes "\<forall>k \<in> fst ` set e. k \<noteq> ''PROJECT_ID'' \<longrightarrow> env_arg_name k \<noteq> ''PROJECT_ID''"
      and "''PROJECT_ID'' \<notin> fst ` set e"
  shows "filter (\<lambda>a. env_arg_name a = ''PROJECT_ID'') (env_flags e) = []"
  using assms
proof (induction e)
  case Nil
  then show ?case by (simp add: env_flags_def)
next
  case (Cons a e)
  obtain k v where a: "a = (k, v)" by (cases a)
  from Cons.prems a have k: "env_arg_name k \<noteq> ''PROJECT_ID''" by auto
  from Cons.prems have "filter (\<lambda>a. env_arg_name a = ''PROJECT_ID'') (env_flags e) = []"
    by (intro Cons.IH) auto
  with k show ?case
    unfolding a env_flags_Cons by (simp add: env_arg_name_pair env_arg_name_flag)
qed

lemma one_project_id_name:
  assumes "distinct (map fst e)"
      and "\<forall>k \<in> fst ` set e. k \<noteq> ''PROJECT_ID'' \<longrightarrow> env_arg_name k \<noteq> ''PROJECT_ID''"
  shows "filter (\<lambda>a. env_arg_name a = ''PROJECT_ID'')
           (env_flags (AList.update ''PROJECT_ID'' (JStr pid) e)) = [''PROJECT_ID='' @ pid]"
  using assms
proof (induction e)
  case Nil
  show ?case
    unfolding update.simps env_flags_Cons
    using env_arg_name_project_id_pair[of pid]
    by (simp add: env_arg_name_flag env_flags_def)
next
  case (Cons a e)
  obtain k v where a: "a = (k, v)" by (cases a)
  show ?case
  proof (cases "k = ''PROJECT_ID''")
    case True
    with Cons.prems a have n: "''PROJECT_ID'' \<notin> fst ` set e" by auto
    from Cons.prems(2) have "\<forall>k \<in> fst ` set e. k \<noteq> ''PROJECT_ID'' \<longrightarrow> env_arg_name k \<noteq> ''PROJECT_ID''"
      by auto
    from no_project_id_name[OF this n]
    have r: "filter (\<lambda>a. env_arg_name a = ''PROJECT_ID'') (env_flags e) = []" .
    have u: "AList.update ''PROJECT_ID'' (JStr pid) (a # e) = (''PROJECT_ID'', JStr pid) # e"
      using True a by simp
    show ?thesis
      unfolding u env_flags_Cons using r env_arg_name_project_id_pair[of pid]
      by (simp add: env_arg_name_flag)
  next
    case False
    from Cons.prems a False have k: "env_arg_name k \<noteq> ''PROJECT_ID''" by auto
    have u: "AList.update ''PROJECT_ID'' (JStr pid) (a # e)
               = (k, v) # AList.update ''PROJECT_ID'' (JStr pid) e"
      using False a by simp
    from Cons.prems have "filter (\<lambda>a. env_arg_name a = ''PROJECT_ID'')
           (env_flags (AList.update ''PROJECT_ID'' (JStr pid) e)) = [''PROJECT_ID='' @ pid]"
      by (intro Cons.IH) auto
    with k show ?thesis
      unfolding u env_flags_Cons by (simp add: env_arg_name_pair env_arg_name_flag)
  qed
qed

lemma project_id_flag_issued:
  "''PROJECT_ID='' @ pid \<in> set (env_flags (AList.update ''PROJECT_ID'' (JStr pid) e))"
proof (induction e)
  case Nil
  show ?case by (simp add: env_flags_def)
next
  case (Cons a e)
  obtain k v where a: "a = (k, v)" by (cases a)
  show ?case
  proof (cases "k = ''PROJECT_ID''")
    case True
    with a show ?thesis by (simp add: env_flags_Cons)
  next
    case False
    with a Cons.IH show ?thesis by (simp add: env_flags_Cons)
  qed
qed

text \<open>A run command that \<^verbatim>\<open>run_container\<close> issues carries the environment it was given with \<^verbatim>\<open>PROJECT_ID\<close> set.\<close>

lemma run_container_issued:
  assumes r: "run_container P pid env ports vols cmd s = (r, s')"
      and e: "or_empty_dict env = JObj e"
  shows "(\<forall>c x. (c, x) \<in> set (issued s s') \<and> is_run c \<longrightarrow>
            (\<exists>rest. c = [''docker'', ''run'', ''-d'', ''--name'', ''project-'' @ pid]
                         @ env_flags (AList.update ''PROJECT_ID'' (JStr pid) e) @ rest))
         \<and> (\<forall>h. r = Inr (RunOk h) \<longrightarrow>
            (\<exists>c x rest. runs (issued s s') = [(c, x)] \<and> success x \<and> h = strip (outp x) \<and>
               c = [''docker'', ''run'', ''-d'', ''--name'', ''project-'' @ pid]
                     @ env_flags (AList.update ''PROJECT_ID'' (JStr pid) e) @ rest))"
proof -
  from run_container_grows[OF r] obtain new where
    n: "grows s s' new" "run_effect (run_container_cmd P pid env ports vols cmd) r (runs new)"
    by blast
  from n(1) have i: "issued s s' = new" by (simp add: grows_def issued_def)
  have shape: "\<exists>rest. c = [''docker'', ''run'', ''-d'', ''--name'', ''project-'' @ pid]
                         @ env_flags (AList.update ''PROJECT_ID'' (JStr pid) e) @ rest"
    if "(c, x) \<in> set (runs new)" for c x
  proof -
    from that n(2) have "run_container_cmd P pid env ports vols cmd = Inr c"
      unfolding run_effect_def by blast
    then have "build_run_cmd (USER_CONTAINER_TEMPLATE P) pid
                 (JObj (AList.update ''PROJECT_ID'' (JStr pid) e))
                 (or_empty_dict ports) (or_empty_dict vols) cmd = Inr c"
      by (simp add: run_container_cmd_def e exn_bind_def)
    then show ?thesis by (rule build_run_cmd_shape)
  qed
  have a: "\<forall>c x. (c, x) \<in> set (issued s s') \<and> is_run c \<longrightarrow>
            (\<exists>rest. c = [''docker'', ''run'', ''-d'', ''--name'', ''project-'' @ pid]
                         @ env_flags (AList.update ''PROJECT_ID'' (JStr pid) e) @ rest)"
  proof (intro allI impI, elim conjE)
    fix c x assume "(c, x) \<in> set (issued s s')" "is_run c"
    then have "(c, x) \<in> set (runs new)" by (simp add: i runs_def)
    then show "\<exists>rest. c = [''docker'', ''run'', ''-d'', ''--name'', ''project-'' @ pid]
                         @ env_flags (AList.update ''PROJECT_ID'' (JStr pid) e) @ rest"
      by (rule shape)
  qed
  have b: "\<forall>h. r = Inr (RunOk h) \<longrightarrow>
            (\<exists>c x rest. runs (issued s s') = [(c, x)] \<and> success x \<and> h = strip (outp x) \<and>
               c = [''docker'', ''run'', ''-d'', ''--name'', ''project-'' @ pid]
                     @ env_flags (AList.update ''PROJECT_ID'' (JStr pid) e) @ rest)"
  proof (intro allI impI)
    fix h assume "r = Inr (RunOk h)"
    with n(2) obtain c x where cx: "runs new = [(c, x)]" "success x" "h = strip (outp x)"
      by (auto simp: run_effect_def)
    then have "(c, x) \<in> set (runs new)" by simp
    from shape[OF this] obtain rest where
      "c = [''docker'', ''run'', ''-d'', ''--name'', ''project-'' @ pid]
             @ env_flags (AList.update ''PROJECT_ID'' (JStr pid) e) @ rest" ..
    with cx show "\<exists>c x rest. runs (issued s s') = [(c, x)] \<and> success x \<and> h = strip (outp x) \<and>
               c = [''docker'', ''run'', ''-d'', ''--name'', ''project-'' @ pid]
                     @ env_flags (AList.update ''PROJECT_ID'' (JStr pid) e) @ rest"
      unfolding i by blast
  qed
  from a b show ?thesis by (intro conjI)
qed

text \<open>
  A key that holds \<^verbatim>\<open>=\<close> is handed on as it is: after \<^verbatim>\<open>PROJECT_ID=42\<close> the
  command then has a second argument that reads as the name \<^verbatim>\<open>PROJECT_ID\<close>.
\<close>

lemma key_with_equals_sign:
  "env_flags (AList.update ''PROJECT_ID'' (JStr ''42'')
      [(''PROJECT_ID'', JStr ''x''), (''PROJECT_ID=spoofed'', JStr ''y'')])
     = [''-e'', ''PROJECT_ID=42'', ''-e'', ''PROJECT_ID=spoofed=y'']"
  by (simp add: env_flags_def)

section \<open>The claims\<close>

subsection \<open>C8: what the executor returns\<close>

text \<open>
  C8, as the code has it. \<^verbatim>\<open>run_docker_command\<close> returns a result in every case.
  When the process ends, \<open>success\<close> says whether the return code was 0, and the two
  captured streams are returned stripped, so with no white space at either end. When the
  runner raises, \<open>success\<close> is false, the output is empty and the error is the text of
  the exception as it is, not stripped.
\<close>

theorem run_docker_command_result:
  "(let r = fst (run_docker_command P command s) in
    case subprocess_run P command (world s) of
      (Completed rc out err, w) \<Rightarrow>
         r = \<lparr>success = (rc = 0), outp = strip out, error = strip err\<rparr>
         \<and> trimmed (outp r) \<and> trimmed (error r)
    | (Raised msg, w) \<Rightarrow>
         r = \<lparr>success = False, outp = [], error = msg\<rparr> \<and> trimmed (outp r))"
proof -
  have "trimmed []" by (simp add: trimmed_def)
  then show ?thesis
    by (auto simp: run_docker_command_def strip_trimmed Let_def
             split: prod.splits proc_outcome.splits)
qed

theorem run_docker_command_result_witness:
  "fst (run_docker_command daemon_down [''docker'', ''info''] (init_state []))
     = \<lparr>success = False, outp = [], error = ''Cannot connect to the Docker daemon''\<rparr>
   \<and> trimmed ''Cannot connect to the Docker daemon''"
  using run_docker_command_result [of daemon_down "[''docker'', ''info'']" "init_state []"]
  by (simp add: run_docker_command_def daemon_down_def scripted_def init_state_def strip_def
        py_isspace_def trimmed_def Let_def)

text \<open>
  C8 as stated fails: the text of an exception raised by the runner reaches the caller with
  the white space it has.
\<close>

theorem spawn_failure_not_trimmed_counterexample:
  "\<not> trimmed (error (fst (run_docker_command (scripted [] (Raised '' spawn failed ''))
        [''docker'', ''info''] (init_state []))))"
  by (simp add: run_docker_command_def scripted_def init_state_def trimmed_def py_isspace_def)

subsection \<open>C3: how the registry changes\<close>

text \<open>
  C3. Whatever request is served, the registry afterwards is the registry before, or the
  request was a create-or-run that issued one run command which succeeded, and the
  registry has the project set to the handle that the run printed, or the request was a
  stop and the project's key is deleted. So a key that was not there before was added by a
  create-or-run for that project whose run succeeded, and a key that is gone was removed by
  a stop for that project. A create-or-run whose run command failed answers 500 and leaves
  the registry as it was; and in the fresh run, when \<^verbatim>\<open>run_container\<close> reports
  failure, the answer is 500 with its error and the registry is as before.
\<close>

theorem registry_lifecycle:
  assumes "serve P req s = (res, s')"
  shows
    "(project_containers s' = project_containers s
      \<or> (\<exists>pid rq c x. req = CreateOrRun pid rq \<and> runs (issued s s') = [(c, x)] \<and> success x \<and>
            project_containers s' = AList.update pid (strip (outp x)) (project_containers s))
      \<or> (\<exists>pid. req = StopContainer pid \<and>
            project_containers s' = AList.delete pid (project_containers s)))
     \<and> (\<forall>k. k \<in> fst ` set (project_containers s') \<and> k \<notin> fst ` set (project_containers s) \<longrightarrow>
           (\<exists>rq c x. req = CreateOrRun k rq \<and> runs (issued s s') = [(c, x)] \<and> success x \<and>
              map_of (project_containers s') k = Some (strip (outp x))))
     \<and> (\<forall>k. k \<in> fst ` set (project_containers s) \<and> k \<notin> fst ` set (project_containers s') \<longrightarrow>
           req = StopContainer k)
     \<and> (\<forall>pid rq c x. req = CreateOrRun pid rq \<and> (c, x) \<in> set (issued s s') \<and> is_run c \<and> \<not> success x \<longrightarrow>
           (\<exists>msg. res = Inr (error_response msg 500)) \<and>
           project_containers s' = project_containers s)
     \<and> (\<forall>pid rq env ports vols cmd err s0 s1.
           request_config pid rq = Inr (env, ports, vols, cmd) \<and>
           run_container P pid env ports vols cmd s0 = (Inr (RunError err), s1) \<longrightarrow>
           create_new_container P pid rq s0 = (Inr (error_response err 500), s1) \<and>
           project_containers s1 = project_containers s0)"
proof -
  let ?reg = "project_containers s" and ?reg' = "project_containers s'"
  have first:
    "?reg' = ?reg
      \<or> (\<exists>pid rq c x. req = CreateOrRun pid rq \<and> runs (issued s s') = [(c, x)] \<and> success x \<and>
            ?reg' = AList.update pid (strip (outp x)) ?reg)
      \<or> (\<exists>pid. req = StopContainer pid \<and> ?reg' = AList.delete pid ?reg)"
  proof (cases req)
    case GetDockerStatus
    with assms show ?thesis by (auto dest: get_docker_status_frame)
  next
    case (CreateOrRun pid rq)
    with assms obtain resp where c: "create_or_run_container P pid rq s = (resp, s')"
      by (auto split: prod.splits)
    from create_or_run_container_outcome[OF c] CreateOrRun show ?thesis by auto
  next
    case (StopContainer pid)
    with assms obtain resp where c: "stop_container P pid s = (resp, s')"
      by (auto split: prod.splits)
    from stop_container_frame[OF c] StopContainer show ?thesis by auto
  next
    case ListContainers
    with assms show ?thesis by (auto split: prod.splits dest: list_containers_frame)
  next
    case (GetContainerStatus pid)
    with assms show ?thesis by (auto split: prod.splits dest: get_container_status_endpoint_frame)
  qed
  have added: "\<exists>rq c x. req = CreateOrRun k rq \<and> runs (issued s s') = [(c, x)] \<and> success x \<and>
              map_of ?reg' k = Some (strip (outp x))"
    if k: "k \<in> fst ` set ?reg'" "k \<notin> fst ` set ?reg" for k
  proof -
    from k have "?reg' \<noteq> ?reg" by auto
    with first have
      "(\<exists>pid rq c x. req = CreateOrRun pid rq \<and> runs (issued s s') = [(c, x)] \<and> success x \<and>
            ?reg' = AList.update pid (strip (outp x)) ?reg)
       \<or> (\<exists>pid. ?reg' = AList.delete pid ?reg)"
      by blast
    then show ?thesis
    proof (elim disjE exE conjE)
      fix pid rq c x
      assume u: "req = CreateOrRun pid rq" "runs (issued s s') = [(c, x)]" "success x"
        "?reg' = AList.update pid (strip (outp x)) ?reg"
      from k u(4) have "k = pid" by (metis update_new_key)
      with u show ?thesis by (simp add: map_of_update_same)
    next
      fix pid
      assume "?reg' = AList.delete pid ?reg"
      with k show ?thesis by (metis delete_no_new_key)
    qed
  qed
  have removed: "req = StopContainer k"
    if k: "k \<in> fst ` set ?reg" "k \<notin> fst ` set ?reg'" for k
  proof -
    from k have "?reg' \<noteq> ?reg" by auto
    with first have
      "(\<exists>pid (x::cmd_result). ?reg' = AList.update pid (strip (outp x)) ?reg)
       \<or> (\<exists>pid. req = StopContainer pid \<and> ?reg' = AList.delete pid ?reg)"
      by blast
    then show ?thesis
    proof (elim disjE exE conjE)
      fix pid and x :: cmd_result
      assume "?reg' = AList.update pid (strip (outp x)) ?reg"
      with k show ?thesis by (metis update_keeps_keys)
    next
      fix pid
      assume d: "req = StopContainer pid" "?reg' = AList.delete pid ?reg"
      from k d(2) have "k = pid" by (metis delete_lost_key)
      with d show ?thesis by simp
    qed
  qed
  have failed: "(\<exists>msg. res = Inr (error_response msg 500)) \<and> ?reg' = ?reg"
    if f: "req = CreateOrRun pid rq" "(c, x) \<in> set (issued s s')" "is_run c" "\<not> success x"
    for pid rq c x
  proof -
    from assms f(1) obtain resp where c: "create_or_run_container P pid rq s = (resp, s')"
      and r: "res = Inr resp"
      by (auto split: prod.splits)
    from f(2,3) have m: "(c, x) \<in> set (runs (issued s s'))" by (simp add: runs_def)
    from create_or_run_container_outcome[OF c] m f(4) r show ?thesis
      by (auto simp: restarted_response_def already_running_response_def created_response_def
            error_response_def jsonify_def)
  qed
  have fresh: "create_new_container P pid rq s0 = (Inr (error_response err 500), s1) \<and>
           project_containers s1 = project_containers s0"
    if f: "request_config pid rq = Inr (env, ports, vols, cmd)"
       "run_container P pid env ports vols cmd s0 = (Inr (RunError err), s1)"
    for pid rq env ports vols cmd err s0 s1
  proof -
    from run_container_grows[OF f(2)] have "project_containers s1 = project_containers s0"
      by (auto simp: grows_def)
    with f show ?thesis by (simp add: create_new_container_def)
  qed
  have a2: "\<forall>k. k \<in> fst ` set ?reg' \<and> k \<notin> fst ` set ?reg \<longrightarrow>
           (\<exists>rq c x. req = CreateOrRun k rq \<and> runs (issued s s') = [(c, x)] \<and> success x \<and>
              map_of ?reg' k = Some (strip (outp x)))"
    using added by (intro allI impI) (elim conjE)
  have a3: "\<forall>k. k \<in> fst ` set ?reg \<and> k \<notin> fst ` set ?reg' \<longrightarrow> req = StopContainer k"
    using removed by (intro allI impI) (elim conjE)
  have a4: "\<forall>pid rq c x. req = CreateOrRun pid rq \<and> (c, x) \<in> set (issued s s') \<and> is_run c \<and> \<not> success x \<longrightarrow>
           (\<exists>msg. res = Inr (error_response msg 500)) \<and> ?reg' = ?reg"
    using failed by (intro allI impI) (elim conjE)
  have a5: "\<forall>pid rq env ports vols cmd err s0 s1.
           request_config pid rq = Inr (env, ports, vols, cmd) \<and>
           run_container P pid env ports vols cmd s0 = (Inr (RunError err), s1) \<longrightarrow>
           create_new_container P pid rq s0 = (Inr (error_response err 500), s1) \<and>
           project_containers s1 = project_containers s0"
    using fresh by (intro allI impI) (elim conjE)
  from first a2 a3 a4 a5 show ?thesis by (intro conjI)
qed

theorem registry_lifecycle_witness:
  "project_containers (snd (serve runtime_up (CreateOrRun ''42'' JNull) (init_state [])))
     = AList.update ''42'' ''h1'' (project_containers (init_state []))
   \<and> project_containers (snd (serve runtime_up (StopContainer ''42'') (init_state [(''42'', ''h1'')])))
     = AList.delete ''42'' (project_containers (init_state [(''42'', ''h1'')]))"
proof -
  have a: "serve runtime_up (CreateOrRun ''42'' JNull) (init_state [])
        = (fst (serve runtime_up (CreateOrRun ''42'' JNull) (init_state [])),
           snd (serve runtime_up (CreateOrRun ''42'' JNull) (init_state [])))"
    by simp
  have b: "project_containers (snd (serve runtime_up (CreateOrRun ''42'' JNull) (init_state [])))
     = AList.update ''42'' ''h1'' (project_containers (init_state []))"
    by code_simp
  have c: "project_containers (snd (serve runtime_up (StopContainer ''42'') (init_state [(''42'', ''h1'')])))
     = AList.delete ''42'' (project_containers (init_state [(''42'', ''h1'')]))"
    by code_simp
  from registry_lifecycle[OF a] b c show ?thesis
    by (intro conjI)
qed

subsection \<open>C1: a registered container that is running is reused\<close>

text \<open>
  C1, as the code has it. When the daemon check and the image guard pass, the project is in
  the registry, and its handle inspects with status running, the answer is 200 with that
  handle and the status running, no run command is issued, and the registry is as before.
  If the state is the one a successful create-or-run for the project has just left, the
  handle that the first call reported is the handle that this call reports.
\<close>

theorem create_or_run_already_running:
  assumes "check_docker_running P s = (True, s1)"
      and "ensure_base_image_exists P s1 = (True, s2)"
      and "map_of (project_containers s) project_id = Some h"
      and "get_container_status P h s2 = (Inr (StatusOk (JStr ''running'') cr i env), s3)"
  shows "create_or_run_container P project_id rq s =
           (already_running_response project_id h (StatusOk (JStr ''running'') cr i env), s3)
         \<and> code (fst (create_or_run_container P project_id rq s)) = 200
         \<and> map_of (body (fst (create_or_run_container P project_id rq s))) ''container_id'' = Some (JStr h)
         \<and> map_of (body (fst (create_or_run_container P project_id rq s))) ''container_status''
               = Some (JStr ''running'')
         \<and> project_containers (snd (create_or_run_container P project_id rq s)) = project_containers s
         \<and> runs (issued s (snd (create_or_run_container P project_id rq s))) = []
         \<and> (\<forall>rq0 s0 r0. create_or_run_container P project_id rq0 s0 = (r0, s) \<and> code r0 \<noteq> 500 \<longrightarrow>
                map_of (body r0) ''container_id'' = Some (JStr h))"
proof -
  from check_docker_running_grows[OF assms(1)] have r1: "project_containers s1 = project_containers s"
    by (auto simp: grows_def)
  from ensure_base_image_exists_grows[OF assms(2)] have r2: "project_containers s2 = project_containers s1"
    by (auto simp: grows_def)
  have m: "map_of (project_containers s2) project_id = Some h" using assms(3) r1 r2 by simp
  have t: "create_or_run_try P project_id rq s =
      (Inr (already_running_response project_id h (StatusOk (JStr ''running'') cr i env)), s3)"
    using assms(1,2,4) m by (simp add: create_or_run_try_def)
  then have e: "create_or_run_container P project_id rq s =
      (already_running_response project_id h (StatusOk (JStr ''running'') cr i env), s3)"
    by (simp add: create_or_run_container_def except_500_def)
  from create_or_run_container_outcome[OF e]
  have o: "runs (issued s s3) = []" "project_containers s3 = project_containers s"
    by (auto simp: error_response_def already_running_response_def created_response_def jsonify_def)
  have f: "\<forall>rq0 s0 r0. create_or_run_container P project_id rq0 s0 = (r0, s) \<and> code r0 \<noteq> 500 \<longrightarrow>
                map_of (body r0) ''container_id'' = Some (JStr h)"
    using first_call_handle assms(3) by fastforce
  show ?thesis
    unfolding e using o f by (simp add: already_running_response_def jsonify_def)
qed

theorem create_or_run_already_running_witness:
  "check_docker_running runtime_up (init_state [(''42'', ''h1'')])
     = (True, snd (check_docker_running runtime_up (init_state [(''42'', ''h1'')])))
   \<and> map_of (project_containers (init_state [(''42'', ''h1'')])) ''42'' = Some ''h1''
   \<and> code (fst (create_or_run_container runtime_up ''42'' JNull (init_state [(''42'', ''h1'')]))) = 200
   \<and> map_of (body (fst (create_or_run_container runtime_up ''42'' JNull (init_state [(''42'', ''h1'')]))))
         ''container_id'' = Some (JStr ''h1'')
   \<and> project_containers (snd (create_or_run_container runtime_up ''42'' JNull (init_state [(''42'', ''h1'')])))
       = project_containers (init_state [(''42'', ''h1'')])
   \<and> runs (issued (init_state [(''42'', ''h1'')])
         (snd (create_or_run_container runtime_up ''42'' JNull (init_state [(''42'', ''h1'')])))) = []
   \<and> snd (create_or_run_container runtime_up ''42'' JNull (init_state [])) =
         (init_state [(''42'', ''h1'')])\<lparr>history :=
            history (snd (create_or_run_container runtime_up ''42'' JNull (init_state [])))\<rparr>"
proof -
  let ?s = "init_state [(''42'', ''h1'')]"
  let ?s1 = "snd (check_docker_running runtime_up ?s)"
  let ?s2 = "snd (ensure_base_image_exists runtime_up ?s1)"
  let ?s3 = "snd (get_container_status runtime_up ''h1'' ?s2)"
  have a: "check_docker_running runtime_up ?s = (True, ?s1)" by code_simp
  have b: "ensure_base_image_exists runtime_up ?s1 = (True, ?s2)" by code_simp
  have c: "map_of (project_containers ?s) ''42'' = Some ''h1''" by code_simp
  have d: "get_container_status runtime_up ''h1'' ?s2
             = (Inr (StatusOk (JStr ''running'') (JStr []) ''h1'' (JArr [])), ?s3)" by code_simp
  have e: "snd (create_or_run_container runtime_up ''42'' JNull (init_state [])) =
         (init_state [(''42'', ''h1'')])\<lparr>history :=
            history (snd (create_or_run_container runtime_up ''42'' JNull (init_state [])))\<rparr>"
    by code_simp
  from create_or_run_already_running[OF a b c d, of JNull] a c e show ?thesis
    by blast
qed

text \<open>
  C1 as stated fails: with the project registered and its container running, a base image
  that is neither present nor pullable makes the answer 500.
\<close>

theorem create_or_run_running_counterexample:
  "map_of (project_containers (init_state [(''42'', ''h1'')])) ''42'' = Some ''h1''
   \<and> fst (get_container_status image_gone ''h1'' (init_state [(''42'', ''h1'')]))
       = Inr (StatusOk (JStr ''running'') (JStr []) ''h1'' (JArr []))
   \<and> code (fst (create_or_run_container image_gone ''42'' JNull (init_state [(''42'', ''h1'')]))) = 500"
  by code_simp

subsection \<open>C2: a registered handle that no longer inspects is replaced\<close>

text \<open>
  C2, as the code has it. When the daemon check and the image guard pass, the project is in
  the registry, and the inspect of its handle fails, the request goes on as the fresh run,
  started with the registry as it was: the stale key is still there. When
  \<^verbatim>\<open>run_container\<close> then succeeds with a new handle, the registry afterwards is the
  registry before with the project set to the new handle.
\<close>

theorem create_or_run_stale_handle:
  assumes "check_docker_running P s = (True, s1)"
      and "ensure_base_image_exists P s1 = (True, s2)"
      and "map_of (project_containers s) project_id = Some h"
      and "get_container_status P h s2 = (Inr (StatusError err), s3)"
  shows "create_or_run_container P project_id rq s = except_500 (create_new_container P project_id rq s3)
         \<and> project_containers s3 = project_containers s
         \<and> map_of (project_containers s3) project_id = Some h
         \<and> (\<forall>env ports vols cmd h' s4.
               request_config project_id rq = Inr (env, ports, vols, cmd) \<and>
               run_container P project_id env ports vols cmd s3 = (Inr (RunOk h'), s4) \<longrightarrow>
               project_containers (snd (create_or_run_container P project_id rq s))
                 = AList.update project_id h' (project_containers s) \<and>
               map_of (project_containers (snd (create_or_run_container P project_id rq s))) project_id
                 = Some h')"
proof -
  from check_docker_running_grows[OF assms(1)] have r1: "project_containers s1 = project_containers s"
    by (auto simp: grows_def)
  from ensure_base_image_exists_grows[OF assms(2)] have r2: "project_containers s2 = project_containers s1"
    by (auto simp: grows_def)
  from get_container_status_grows[OF assms(4)] have r3: "project_containers s3 = project_containers s2"
    by (auto simp: grows_def)
  have m: "map_of (project_containers s2) project_id = Some h" using assms(3) r1 r2 by simp
  have t: "create_or_run_try P project_id rq s = create_new_container P project_id rq s3"
    using assms(1,2,4) m by (simp add: create_or_run_try_def)
  then have e: "create_or_run_container P project_id rq s
      = except_500 (create_new_container P project_id rq s3)"
    by (simp add: create_or_run_container_def)
  have reg: "project_containers s3 = project_containers s" using r1 r2 r3 by simp
  have ok: "project_containers (snd (create_or_run_container P project_id rq s))
                 = AList.update project_id h' (project_containers s) \<and>
               map_of (project_containers (snd (create_or_run_container P project_id rq s))) project_id
                 = Some h'"
    if "request_config project_id rq = Inr (env, ports, vols, cmd)"
       "run_container P project_id env ports vols cmd s3 = (Inr (RunOk h'), s4)"
    for env ports vols cmd h' s4
    using create_new_container_run_ok[OF that] reg
    by (simp add: e snd_except_500 map_of_update_same)
  have all: "\<forall>env ports vols cmd h' s4.
               request_config project_id rq = Inr (env, ports, vols, cmd) \<and>
               run_container P project_id env ports vols cmd s3 = (Inr (RunOk h'), s4) \<longrightarrow>
               project_containers (snd (create_or_run_container P project_id rq s))
                 = AList.update project_id h' (project_containers s) \<and>
               map_of (project_containers (snd (create_or_run_container P project_id rq s))) project_id
                 = Some h'"
    using ok by (intro allI impI) (elim conjE)
  have m3: "map_of (project_containers s3) project_id = Some h" using reg assms(3) by simp
  from e reg m3 all show ?thesis by (intro conjI)
qed

theorem create_or_run_stale_handle_witness:
  "map_of (project_containers (init_state [(''42'', ''h1'')])) ''42'' = Some ''h1''
   \<and> fst (get_container_status stale_runtime ''h1'' (init_state [(''42'', ''h1'')]))
       = Inr (StatusError ''Failed to get container status: Error: No such object'')
   \<and> code (fst (create_or_run_container stale_runtime ''42'' JNull (init_state [(''42'', ''h1'')]))) = 201
   \<and> project_containers (snd (create_or_run_container stale_runtime ''42'' JNull (init_state [(''42'', ''h1'')])))
       = [(''42'', ''h2'')]"
proof -
  let ?s = "init_state [(''42'', ''h1'')]"
  let ?s1 = "snd (check_docker_running stale_runtime ?s)"
  let ?s2 = "snd (ensure_base_image_exists stale_runtime ?s1)"
  let ?s3 = "snd (get_container_status stale_runtime ''h1'' ?s2)"
  let ?env = "JObj [(''PROJECT_ID'', JStr ''42'')]"
  let ?s4 = "snd (run_container stale_runtime ''42'' ?env (JObj []) (JObj []) JNull ?s3)"
  have a: "check_docker_running stale_runtime ?s = (True, ?s1)" by code_simp
  have b: "ensure_base_image_exists stale_runtime ?s1 = (True, ?s2)" by code_simp
  have c: "map_of (project_containers ?s) ''42'' = Some ''h1''" by code_simp
  have d: "get_container_status stale_runtime ''h1'' ?s2
             = (Inr (StatusError ''Failed to get container status: Error: No such object''), ?s3)"
    by code_simp
  have e: "request_config ''42'' JNull = Inr (?env, JObj [], JObj [], JNull)" by code_simp
  have f: "run_container stale_runtime ''42'' ?env (JObj []) (JObj []) JNull ?s3 = (Inr (RunOk ''h2''), ?s4)"
    by code_simp
  have g: "fst (get_container_status stale_runtime ''h1'' ?s)
       = Inr (StatusError ''Failed to get container status: Error: No such object'')" by code_simp
  have h: "code (fst (create_or_run_container stale_runtime ''42'' JNull ?s)) = 201" by code_simp
  have i: "AList.update ''42'' ''h2'' (project_containers ?s) = [(''42'', ''h2'')]" by code_simp
  from create_or_run_stale_handle[OF a b c d, of JNull] e f
  have "project_containers (snd (create_or_run_container stale_runtime ''42'' JNull ?s))
          = AList.update ''42'' ''h2'' (project_containers ?s)"
    by blast
  with i have "project_containers (snd (create_or_run_container stale_runtime ''42'' JNull ?s))
          = [(''42'', ''h2'')]" by (simp only:)
  with c g h show ?thesis by (intro conjI)
qed

text \<open>
  C2 as stated fails: with the project registered and its handle unknown to the runtime,
  a base image that cannot be had ends the request at the image guard. The stored handle is
  not inspected and no fresh run is started; the fresh run would have answered with another
  message.
\<close>

theorem create_or_run_stale_counterexample:
  "map_of (project_containers (init_state [(''42'', ''h1'')])) ''42'' = Some ''h1''
   \<and> fst (get_container_status stale_no_image ''h1'' (init_state [(''42'', ''h1'')]))
       = Inr (StatusError ''Failed to get container status: Error: No such object'')
   \<and> fst (create_or_run_container stale_no_image ''42'' JNull (init_state [(''42'', ''h1'')]))
       = error_response ''Base Docker image base:latest not available. Check your registry access.'' 500
   \<and> map fst (history (snd (create_or_run_container stale_no_image ''42'' JNull (init_state [(''42'', ''h1'')]))))
       = [[''docker'', ''info''],
          [''docker'', ''image'', ''inspect'', ''base:latest''],
          [''docker'', ''pull'', ''base:latest'']]
   \<and> fst (create_new_container stale_no_image ''42'' JNull (init_state [(''42'', ''h1'')]))
       = Inr (error_response ''Failed to ensure base image base:latest exists'' 500)"
  by code_simp

subsection \<open>C4: stop\<close>

text \<open>
  C4, as the code has it. When the daemon check passes: for a project that is not in the
  registry, stop answers 404 and the registry is as before; for a registered project, when
  \<^verbatim>\<open>stop_and_remove_container\<close> succeeds the key is deleted and the answer is 200 with
  status success; when it fails with an error that contains \<^verbatim>\<open>No such container\<close>
  the key is deleted all the same and the answer is 200 with status warning; when it fails
  with another error the answer is 500 with that error and the registry is as before. So
  after a stop that answered 200, a second stop whose daemon check passes answers 404.
\<close>

theorem stop_container_cases:
  assumes "check_docker_running P s = (True, s1)"
  shows
    "(map_of (project_containers s) pid = None \<longrightarrow>
        code (fst (stop_container P pid s)) = 404 \<and>
        project_containers (snd (stop_container P pid s)) = project_containers s)
     \<and> (\<forall>h s2. map_of (project_containers s) pid = Some h \<and>
            stop_and_remove_container P h s1 = (None, s2) \<longrightarrow>
            code (fst (stop_container P pid s)) = 200 \<and>
            map_of (body (fst (stop_container P pid s))) ''status'' = Some (JStr ''success'') \<and>
            project_containers (snd (stop_container P pid s)) = AList.delete pid (project_containers s) \<and>
            map_of (project_containers (snd (stop_container P pid s))) pid = None)
     \<and> (\<forall>h err s2. map_of (project_containers s) pid = Some h \<and>
            stop_and_remove_container P h s1 = (Some err, s2) \<and>
            str_contains ''No such container'' err \<longrightarrow>
            code (fst (stop_container P pid s)) = 200 \<and>
            map_of (body (fst (stop_container P pid s))) ''status'' = Some (JStr ''warning'') \<and>
            project_containers (snd (stop_container P pid s)) = AList.delete pid (project_containers s) \<and>
            map_of (project_containers (snd (stop_container P pid s))) pid = None)
     \<and> (\<forall>h err s2. map_of (project_containers s) pid = Some h \<and>
            stop_and_remove_container P h s1 = (Some err, s2) \<and>
            \<not> str_contains ''No such container'' err \<longrightarrow>
            fst (stop_container P pid s) = error_response err 500 \<and>
            project_containers (snd (stop_container P pid s)) = project_containers s)
     \<and> (\<forall>t1. code (fst (stop_container P pid s)) = 200 \<and>
            check_docker_running P (snd (stop_container P pid s)) = (True, t1) \<longrightarrow>
            code (fst (stop_container P pid (snd (stop_container P pid s)))) = 404)"
proof -
  note u = stop_container_unfold[OF assms]
  from check_docker_running_grows[OF assms] have r1: "project_containers s1 = project_containers s"
    by (auto simp: grows_def)
  have c1: "map_of (project_containers s) pid = None \<longrightarrow>
        code (fst (stop_container P pid s)) = 404 \<and>
        project_containers (snd (stop_container P pid s)) = project_containers s"
    using r1 by (simp add: u error_response_code)
  have c2: "\<forall>h s2. map_of (project_containers s) pid = Some h \<and>
            stop_and_remove_container P h s1 = (None, s2) \<longrightarrow>
            code (fst (stop_container P pid s)) = 200 \<and>
            map_of (body (fst (stop_container P pid s))) ''status'' = Some (JStr ''success'') \<and>
            project_containers (snd (stop_container P pid s)) = AList.delete pid (project_containers s) \<and>
            map_of (project_containers (snd (stop_container P pid s))) pid = None"
    by (simp add: u jsonify_def map_of_delete_same)
  have c3: "\<forall>h err s2. map_of (project_containers s) pid = Some h \<and>
            stop_and_remove_container P h s1 = (Some err, s2) \<and>
            str_contains ''No such container'' err \<longrightarrow>
            code (fst (stop_container P pid s)) = 200 \<and>
            map_of (body (fst (stop_container P pid s))) ''status'' = Some (JStr ''warning'') \<and>
            project_containers (snd (stop_container P pid s)) = AList.delete pid (project_containers s) \<and>
            map_of (project_containers (snd (stop_container P pid s))) pid = None"
    by (simp add: u jsonify_def map_of_delete_same)
  have c4: "\<forall>h err s2. map_of (project_containers s) pid = Some h \<and>
            stop_and_remove_container P h s1 = (Some err, s2) \<and>
            \<not> str_contains ''No such container'' err \<longrightarrow>
            fst (stop_container P pid s) = error_response err 500 \<and>
            project_containers (snd (stop_container P pid s)) = project_containers s"
    by (simp add: u)
  have c5: "\<forall>t1. code (fst (stop_container P pid s)) = 200 \<and>
            check_docker_running P (snd (stop_container P pid s)) = (True, t1) \<longrightarrow>
            code (fst (stop_container P pid (snd (stop_container P pid s)))) = 404"
  proof (intro allI impI, elim conjE)
    fix t1
    assume a: "code (fst (stop_container P pid s)) = 200"
      and b: "check_docker_running P (snd (stop_container P pid s)) = (True, t1)"
    from stop_container_200_deletes[OF assms a]
    have "map_of (project_containers (snd (stop_container P pid s))) pid = None"
      by (simp add: map_of_delete_same)
    from stop_container_absent[OF b this]
    show "code (fst (stop_container P pid (snd (stop_container P pid s)))) = 404"
      by (simp add: error_response_code)
  qed
  from c1 c2 c3 c4 c5 show ?thesis by (intro conjI)
qed

theorem stop_container_cases_witness:
  "check_docker_running runtime_up (init_state [(''42'', ''h1'')])
     = (True, snd (check_docker_running runtime_up (init_state [(''42'', ''h1'')])))
   \<and> map_of (project_containers (init_state [(''42'', ''h1'')])) ''42'' = Some ''h1''
   \<and> code (fst (stop_container runtime_up ''42'' (init_state [(''42'', ''h1'')]))) = 200
   \<and> project_containers (snd (stop_container runtime_up ''42'' (init_state [(''42'', ''h1'')]))) = []
   \<and> code (fst (stop_container runtime_up ''42''
        (snd (stop_container runtime_up ''42'' (init_state [(''42'', ''h1'')]))))) = 404
   \<and> code (fst (stop_container runtime_up ''7'' (init_state [(''42'', ''h1'')]))) = 404"
proof -
  let ?s = "init_state [(''42'', ''h1'')]"
  let ?s1 = "snd (check_docker_running runtime_up ?s)"
  let ?t = "snd (stop_container runtime_up ''42'' ?s)"
  have a: "check_docker_running runtime_up ?s = (True, ?s1)" by code_simp
  have b: "map_of (project_containers ?s) ''42'' = Some ''h1''" by code_simp
  have c: "stop_and_remove_container runtime_up ''h1'' ?s1
             = (None, snd (stop_and_remove_container runtime_up ''h1'' ?s1))" by code_simp
  have d: "check_docker_running runtime_up ?t = (True, snd (check_docker_running runtime_up ?t))"
    by code_simp
  have e: "map_of (project_containers ?s) ''7'' = None" by code_simp
  have f: "AList.delete ''42'' (project_containers ?s) = []" by code_simp
  note t = stop_container_cases[OF a]
  from t[of "''42''"] b c have g: "code (fst (stop_container runtime_up ''42'' ?s)) = 200"
    "project_containers ?t = AList.delete ''42'' (project_containers ?s)"
    by blast+
  from t[of "''42''"] g(1) d have h: "code (fst (stop_container runtime_up ''42'' ?t)) = 404"
    by blast
  from t[of "''7''"] e have i: "code (fst (stop_container runtime_up ''7'' ?s)) = 404"
    by blast
  from g(2) f have j: "project_containers ?t = []" by (simp only:)
  from a b g(1) j h i show ?thesis by (intro conjI)
qed

text \<open>
  C4 as stated fails: when the daemon does not answer, stop for a project that is not in the
  registry answers 500, not 404.
\<close>

theorem stop_absent_counterexample:
  "map_of (project_containers (init_state [])) ''42'' = None
   \<and> code (fst (stop_container daemon_down ''42'' (init_state []))) = 500"
  by code_simp

subsection \<open>C5: listing\<close>

text \<open>
  C5, as the code has it. Listing never changes the registry. It answers 200 or else 500
  with status error (the daemon check failed, or an inspect raised). When it answers 200 and
  the keys of the registry are distinct, it has issued the daemon check and then one inspect
  for each registry item, in order, and \<^verbatim>\<open>containers\<close> holds one entry for each
  registry item, in order, under its project: the entry made by \<open>list_entry\<close> of the
  handle and of the status that \<open>status_of\<close> makes of that inspect's result. The entry for
  a failed inspect has status \<^verbatim>\<open>not_found\<close>; the entry for a successful inspect has
  the status read from the runtime.
\<close>

theorem list_containers_reports:
  "project_containers (snd (list_containers P s)) = project_containers s
   \<and> (code (fst (list_containers P s)) = 200 \<or>
        (code (fst (list_containers P s)) = 500 \<and>
         map_of (body (fst (list_containers P s))) ''status'' = Some (JStr ''error'')))
   \<and> (code (fst (list_containers P s)) = 200 \<and> distinct (map fst (project_containers s)) \<longrightarrow>
        (\<exists>x0 trs.
           list_all2 (\<lambda>ph xr. status_of P (snd ph) (fst xr) = Inr (snd xr)) (project_containers s) trs \<and>
           issued s (snd (list_containers P s))
             = ([''docker'', ''info''], x0) # map2 inspect_of (project_containers s) trs \<and>
           body (fst (list_containers P s))
             = [(''status'', JStr ''success''),
                (''containers'', JObj (map2 (entry_of P) (project_containers s) trs))] \<and>
           map fst (map2 (entry_of P) (project_containers s) trs) = map fst (project_containers s)))
   \<and> (\<forall>h err. entry_field (list_entry P h (StatusError err)) ''status'' = JStr ''not_found'')
   \<and> (\<forall>h st cr i env. entry_field (list_entry P h (StatusOk st cr i env)) ''status'' = st)"
proof -
  obtain resp s' where l: "list_containers P s = (resp, s')" by (cases "list_containers P s")
  have frame: "project_containers s' = project_containers s" using l by (rule list_containers_frame)
  have main: "\<exists>x0 trs.
           list_all2 (\<lambda>ph xr. status_of P (snd ph) (fst xr) = Inr (snd xr)) (project_containers s) trs \<and>
           issued s s' = ([''docker'', ''info''], x0) # map2 inspect_of (project_containers s) trs \<and>
           body resp = [(''status'', JStr ''success''),
                (''containers'', JObj (map2 (entry_of P) (project_containers s) trs))] \<and>
           map fst (map2 (entry_of P) (project_containers s) trs) = map fst (project_containers s)"
    if c: "code resp = 200" and d: "distinct (map fst (project_containers s))"
  proof -
    obtain running s1 where a: "check_docker_running P s = (running, s1)"
      by (cases "check_docker_running P s")
    from check_docker_running_grows[OF a] obtain x0 where
      g: "project_containers s1 = project_containers s" "history s1 = history s @ [([''docker'', ''info''], x0)]"
      by (auto simp: grows_def)
    obtain lr s2 where b: "list_loop P (project_containers s) [] s1 = (lr, s2)"
      by (cases "list_loop P (project_containers s) [] s1")
    from l a b g c obtain res where res: "running" "lr = Inr res" "s' = s2"
      "resp = jsonify [(''status'', JStr ''success''), (''containers'', JObj res)] 200"
      by (auto simp: list_containers_def list_containers_try_def except_500_def error_response_def
            jsonify_def daemon_unreachable_def split: if_splits sum.splits)
    from list_loop_result[OF b[unfolded res(2)] d] obtain trs where
      t: "list_all2 (\<lambda>ph xr. status_of P (snd ph) (fst xr) = Inr (snd xr)) (project_containers s) trs"
         "history s2 = history s1 @ map2 inspect_of (project_containers s) trs"
         "res = map2 (entry_of P) (project_containers s) trs"
      by auto
    from t(1) have len: "length trs = length (project_containers s)" by (simp add: list_all2_lengthD)
    have keys: "map fst (map2 (entry_of P) (project_containers s) trs) = map fst (project_containers s)"
      by (rule entry_keys) (simp add: len)
    have iss: "issued s s' = ([''docker'', ''info''], x0) # map2 inspect_of (project_containers s) trs"
      using t(2) g(2) res(3) by (simp add: issued_def)
    from t(1) iss res(4) t(3) keys show ?thesis
      by (intro exI[of _ x0] exI[of _ trs]) (simp add: jsonify_def)
  qed
  from frame list_containers_code[of P s] main show ?thesis
    unfolding l by (simp add: dict_get_def entry_field_def)
qed

theorem list_containers_reports_witness:
  "distinct (map fst (project_containers (init_state [(''1'', ''h1''), (''2'', ''h2'')])))
   \<and> code (fst (list_containers one_running (init_state [(''1'', ''h1''), (''2'', ''h2'')]))) = 200
   \<and> project_containers (snd (list_containers one_running (init_state [(''1'', ''h1''), (''2'', ''h2'')])))
       = project_containers (init_state [(''1'', ''h1''), (''2'', ''h2'')])
   \<and> map_of (body (fst (list_containers one_running (init_state [(''1'', ''h1''), (''2'', ''h2'')]))))
         ''containers''
       = Some (JObj
           [(''1'', JObj [(''container_id'', JStr ''h1''), (''base_image'', JStr ''base:latest''),
                          (''status'', JStr ''running''), (''created'', JStr []),
                          (''environment'', JArr [])]),
            (''2'', JObj [(''container_id'', JStr ''h2''), (''base_image'', JStr ''base:latest''),
                          (''status'', JStr ''not_found''),
                          (''error'', JStr ''Container exists in records but not in Docker'')])])"
proof -
  let ?s = "init_state [(''1'', ''h1''), (''2'', ''h2'')]"
  have a: "distinct (map fst (project_containers ?s))" by code_simp
  have b: "code (fst (list_containers one_running ?s)) = 200" by code_simp
  have c: "map_of (body (fst (list_containers one_running ?s))) ''containers''
       = Some (JObj
           [(''1'', JObj [(''container_id'', JStr ''h1''), (''base_image'', JStr ''base:latest''),
                          (''status'', JStr ''running''), (''created'', JStr []),
                          (''environment'', JArr [])]),
            (''2'', JObj [(''container_id'', JStr ''h2''), (''base_image'', JStr ''base:latest''),
                          (''status'', JStr ''not_found''),
                          (''error'', JStr ''Container exists in records but not in Docker'')])])"
    by code_simp
  from list_containers_reports[of one_running ?s] a b c show ?thesis
    by blast
qed

text \<open>
  C5 as stated fails in its first part: when the daemon does not answer, listing a registry
  with one project answers 500 with no entry at all. The registry is left as it was.
\<close>

theorem list_containers_counterexample:
  "project_containers (init_state [(''42'', ''h1'')]) = [(''42'', ''h1'')]
   \<and> code (fst (list_containers daemon_down (init_state [(''42'', ''h1'')]))) = 500
   \<and> map_of (body (fst (list_containers daemon_down (init_state [(''42'', ''h1'')])))) ''containers'' = None"
  by code_simp

subsection \<open>C9: an environment that is not a dictionary\<close>

text \<open>
  C9. When the request body holds an environment that is not a dictionary, reading the
  configuration does not raise: the environment used is the empty one with
  \<^verbatim>\<open>PROJECT_ID\<close> set, and the request is served exactly as the same request without
  the environment key.
\<close>

theorem non_dict_environment_coerced:
  assumes "map_of b ''environment'' = Some v" and "\<not> is_dict v"
  shows
    "request_config pid (JObj b) =
       Inr (JObj [(''PROJECT_ID'', JStr pid)],
            dict_get b ''ports'' (JObj []), dict_get b ''volumes'' (JObj []),
            dict_get b ''command'' JNull)
     \<and> request_config pid (JObj b) = request_config pid (JObj (AList.delete ''environment'' b))
     \<and> create_or_run_container P pid (JObj b) s
         = create_or_run_container P pid (JObj (AList.delete ''environment'' b)) s"
proof -
  from assms(1) have ne: "b \<noteq> []" by auto
  from assms have g: "(case dict_get b ''environment'' (JObj []) of JObj d \<Rightarrow> d | _ \<Rightarrow> []) = []"
    by (cases v) (simp_all add: dict_get_def)
  have rc: "request_config pid (JObj b) =
       Inr (JObj [(''PROJECT_ID'', JStr pid)],
            dict_get b ''ports'' (JObj []), dict_get b ''volumes'' (JObj []),
            dict_get b ''command'' JNull)"
    using request_config_dict[OF ne, of pid] g by simp
  let ?b' = "AList.delete ''environment'' b"
  have others: "dict_get ?b' ''ports'' (JObj []) = dict_get b ''ports'' (JObj [])"
    "dict_get ?b' ''volumes'' (JObj []) = dict_get b ''volumes'' (JObj [])"
    "dict_get ?b' ''command'' JNull = dict_get b ''command'' JNull"
    "dict_get ?b' ''environment'' (JObj []) = JObj []"
    by (simp_all add: dict_get_def delete_conv')
  have rc': "request_config pid (JObj ?b') =
       Inr (JObj [(''PROJECT_ID'', JStr pid)],
            dict_get b ''ports'' (JObj []), dict_get b ''volumes'' (JObj []),
            dict_get b ''command'' JNull)"
  proof (cases "?b' = []")
    case True
    with others show ?thesis
      by (simp add: request_config_def exn_bind_def dict_get_def Let_def)
  next
    case False
    from request_config_dict[OF False, of pid] others show ?thesis by simp
  qed
  have eq: "request_config pid (JObj b) = request_config pid (JObj ?b')"
    using rc rc' by simp
  have cn: "create_new_container P pid (JObj b) = create_new_container P pid (JObj ?b')"
    by (rule ext) (simp add: create_new_container_def eq)
  have "create_or_run_try P pid (JObj b) s = create_or_run_try P pid (JObj ?b') s"
    unfolding create_or_run_try_def cn by (rule refl)
  then have "create_or_run_container P pid (JObj b) s = create_or_run_container P pid (JObj ?b') s"
    by (simp add: create_or_run_container_def)
  with rc eq show ?thesis by (intro conjI)
qed

theorem non_dict_environment_coerced_witness:
  "map_of [(''environment'', JStr ''A=1''), (''command'', JStr ''sh'')] ''environment'' = Some (JStr ''A=1'')
   \<and> request_config ''42'' (JObj [(''environment'', JStr ''A=1''), (''command'', JStr ''sh'')])
       = Inr (JObj [(''PROJECT_ID'', JStr ''42'')], JObj [], JObj [], JStr ''sh'')
   \<and> code (fst (create_or_run_container runtime_up ''42''
         (JObj [(''environment'', JStr ''A=1''), (''command'', JStr ''sh'')]) (init_state []))) = 201
   \<and> create_or_run_container runtime_up ''42''
         (JObj [(''environment'', JStr ''A=1''), (''command'', JStr ''sh'')]) (init_state [])
       = create_or_run_container runtime_up ''42'' (JObj [(''command'', JStr ''sh'')]) (init_state [])"
proof -
  let ?b = "[(''environment'', JStr ''A=1''), (''command'', JStr ''sh'')]"
  have a: "map_of ?b ''environment'' = Some (JStr ''A=1'')" by simp
  have n: "\<not> is_dict (JStr ''A=1'')" by simp
  have d: "AList.delete ''environment'' ?b = [(''command'', JStr ''sh'')]" by simp
  have r: "request_config ''42'' (JObj ?b)
       = Inr (JObj [(''PROJECT_ID'', JStr ''42'')], JObj [], JObj [], JStr ''sh'')" by code_simp
  have c: "code (fst (create_or_run_container runtime_up ''42'' (JObj ?b) (init_state []))) = 201"
    by code_simp
  from non_dict_environment_coerced[OF a n, of "''42''" runtime_up "init_state []",
      THEN conjunct2, THEN conjunct2]
  have "create_or_run_container runtime_up ''42'' (JObj ?b) (init_state [])
       = create_or_run_container runtime_up ''42'' (JObj (AList.delete ''environment'' ?b)) (init_state [])" .
  then have e: "create_or_run_container runtime_up ''42'' (JObj ?b) (init_state [])
       = create_or_run_container runtime_up ''42'' (JObj [(''command'', JStr ''sh'')]) (init_state [])"
    unfolding d .
  from a r c e show ?thesis by (intro conjI)
qed

subsection \<open>C10: the command of a run\<close>

text \<open>
  C10. An empty string and an empty list as command give the run command, and the whole
  run, of an absent command: nothing follows the image, which is then the last argument. A
  string that is not empty is added as one argument, and the items of a list that is not
  empty are added one by one. A command of any other type adds nothing.
\<close>

theorem command_falsy_as_absent:
  "build_run_cmd t pid env ports vols (JStr []) = build_run_cmd t pid env ports vols JNull
   \<and> build_run_cmd t pid env ports vols (JArr []) = build_run_cmd t pid env ports vols JNull
   \<and> run_container P pid env ports vols (JStr []) s = run_container P pid env ports vols JNull s
   \<and> run_container P pid env ports vols (JArr []) s = run_container P pid env ports vols JNull s
   \<and> (\<forall>run_cmd. build_run_cmd t pid env ports vols JNull = Inr run_cmd \<longrightarrow> last run_cmd = t)
   \<and> build_run_cmd t pid env ports vols (JStr (c # cs))
       = exn_bind (build_run_cmd t pid env ports vols JNull) (\<lambda>run_cmd. Inr (run_cmd @ [c # cs]))
   \<and> build_run_cmd t pid env ports vols (JArr (map JStr (a # as)))
       = exn_bind (build_run_cmd t pid env ports vols JNull) (\<lambda>run_cmd. Inr (run_cmd @ a # as))
   \<and> command_tokens (JStr (c # cs)) = [JStr (c # cs)]
   \<and> command_tokens (JArr (x # xs)) = x # xs
   \<and> command_tokens JNull = [] \<and> command_tokens (JStr []) = [] \<and> command_tokens (JArr []) = []
   \<and> command_tokens (JBool bb) = [] \<and> command_tokens (JInt n) = []
   \<and> command_tokens (JFloat r) = [] \<and> command_tokens (JObj kvs) = []"
proof -
  have e1: "build_run_cmd t pid env ports vols (JStr []) = build_run_cmd t pid env ports vols JNull"
    for t env ports vols
    by (simp add: build_run_cmd_def)
  have e2: "build_run_cmd t pid env ports vols (JArr []) = build_run_cmd t pid env ports vols JNull"
    for t env ports vols
    by (simp add: build_run_cmd_def)
  have r1: "run_container P pid env ports vols (JStr []) s = run_container P pid env ports vols JNull s"
    unfolding run_container_def e1 by (rule refl)
  have r2: "run_container P pid env ports vols (JArr []) s = run_container P pid env ports vols JNull s"
    unfolding run_container_def e2 by (rule refl)
  have l: "\<forall>run_cmd. build_run_cmd t pid env ports vols JNull = Inr run_cmd \<longrightarrow> last run_cmd = t"
    by (intro allI impI) (rule build_run_cmd_no_command_last)
  have s1: "build_run_cmd t pid env ports vols (JStr (c # cs))
       = exn_bind (build_run_cmd t pid env ports vols JNull) (\<lambda>run_cmd. Inr (run_cmd @ [c # cs]))"
    by (rule build_run_cmd_tokens) (simp add: exn_bind_def)
  have "str_items k (command_tokens (JArr (map JStr (a # as)))) = Inr (a # as)" for k
    using str_items_strs[of k "a # as"] by simp
  then have s2: "build_run_cmd t pid env ports vols (JArr (map JStr (a # as)))
       = exn_bind (build_run_cmd t pid env ports vols JNull) (\<lambda>run_cmd. Inr (run_cmd @ a # as))"
    by (rule build_run_cmd_tokens)
  from e1 e2 r1 r2 l s1 s2 show ?thesis by simp
qed

theorem command_falsy_as_absent_witness:
  "build_run_cmd ''base:latest'' ''42'' (JObj [(''PROJECT_ID'', JStr ''42'')]) (JObj []) (JObj []) JNull
     = Inr [''docker'', ''run'', ''-d'', ''--name'', ''project-42'', ''-e'', ''PROJECT_ID=42'',
            ''--label'', ''project_id=42'', ''--label'', ''managed_by=agent_name_tbd'',
            ''--restart'', ''unless-stopped'', ''base:latest'']
   \<and> build_run_cmd ''base:latest'' ''42'' (JObj [(''PROJECT_ID'', JStr ''42'')]) (JObj []) (JObj []) (JStr [])
     = build_run_cmd ''base:latest'' ''42'' (JObj [(''PROJECT_ID'', JStr ''42'')]) (JObj []) (JObj []) JNull
   \<and> build_run_cmd ''base:latest'' ''42'' (JObj [(''PROJECT_ID'', JStr ''42'')]) (JObj []) (JObj []) (JArr [])
     = build_run_cmd ''base:latest'' ''42'' (JObj [(''PROJECT_ID'', JStr ''42'')]) (JObj []) (JObj []) JNull
   \<and> build_run_cmd ''base:latest'' ''42'' (JObj [(''PROJECT_ID'', JStr ''42'')]) (JObj []) (JObj [])
         (JStr ''sleep 5'')
     = Inr [''docker'', ''run'', ''-d'', ''--name'', ''project-42'', ''-e'', ''PROJECT_ID=42'',
            ''--label'', ''project_id=42'', ''--label'', ''managed_by=agent_name_tbd'',
            ''--restart'', ''unless-stopped'', ''base:latest'', ''sleep 5'']
   \<and> build_run_cmd ''base:latest'' ''42'' (JObj [(''PROJECT_ID'', JStr ''42'')]) (JObj []) (JObj [])
         (JArr [JStr ''sleep'', JStr ''5''])
     = Inr [''docker'', ''run'', ''-d'', ''--name'', ''project-42'', ''-e'', ''PROJECT_ID=42'',
            ''--label'', ''project_id=42'', ''--label'', ''managed_by=agent_name_tbd'',
            ''--restart'', ''unless-stopped'', ''base:latest'', ''sleep'', ''5'']"
proof -
  let ?env = "JObj [(''PROJECT_ID'', JStr ''42'')]"
  note t = command_falsy_as_absent[of "''base:latest''" "''42''" ?env "JObj []" "JObj []"
      runtime_up "init_state []"]
  have a: "build_run_cmd ''base:latest'' ''42'' ?env (JObj []) (JObj []) JNull
     = Inr [''docker'', ''run'', ''-d'', ''--name'', ''project-42'', ''-e'', ''PROJECT_ID=42'',
            ''--label'', ''project_id=42'', ''--label'', ''managed_by=agent_name_tbd'',
            ''--restart'', ''unless-stopped'', ''base:latest'']"
    by code_simp
  have b: "build_run_cmd ''base:latest'' ''42'' ?env (JObj []) (JObj []) (JStr ''sleep 5'')
     = Inr [''docker'', ''run'', ''-d'', ''--name'', ''project-42'', ''-e'', ''PROJECT_ID=42'',
            ''--label'', ''project_id=42'', ''--label'', ''managed_by=agent_name_tbd'',
            ''--restart'', ''unless-stopped'', ''base:latest'', ''sleep 5'']"
    by code_simp
  have c: "build_run_cmd ''base:latest'' ''42'' ?env (JObj []) (JObj []) (JArr [JStr ''sleep'', JStr ''5''])
     = Inr [''docker'', ''run'', ''-d'', ''--name'', ''project-42'', ''-e'', ''PROJECT_ID=42'',
            ''--label'', ''project_id=42'', ''--label'', ''managed_by=agent_name_tbd'',
            ''--restart'', ''unless-stopped'', ''base:latest'', ''sleep'', ''5'']"
    by code_simp
  from a t[THEN conjunct1] t[THEN conjunct2, THEN conjunct1] b c show ?thesis by (intro conjI)
qed

subsection \<open>C7: the fields of the responses of create-or-run\<close>

text \<open>
  C7 against the code. Every response of \<^verbatim>\<open>create_or_run_container\<close> is a 201 with the
  fields status, project_id, container_id, container_status and environment, or a 200 with
  status, container_id, container_status and environment but without project_id, or a 500
  with status error. So the two 200 responses (container already running, container
  restarted) do not carry project_id, which the 201 response and the schema named in the
  docstring have.
\<close>

theorem create_or_run_response_fields:
  "(let resp = fst (create_or_run_container P pid rq s) in
     (code resp = 201 \<and>
        map_of (body resp) ''status'' = Some (JStr ''success'') \<and>
        map_of (body resp) ''project_id'' = Some (JStr pid) \<and>
        map_of (body resp) ''container_id'' \<noteq> None \<and>
        map_of (body resp) ''container_status'' \<noteq> None \<and>
        map_of (body resp) ''environment'' \<noteq> None)
     \<or> (code resp = 200 \<and>
        map fst (body resp) = [''status'', ''message'', ''container_id'', ''container_status'', ''environment''] \<and>
        map_of (body resp) ''status'' = Some (JStr ''success'') \<and>
        map_of (body resp) ''project_id'' = None)
     \<or> (code resp = 500 \<and>
        map fst (body resp) = [''status'', ''message''] \<and>
        map_of (body resp) ''status'' = Some (JStr ''error'')))"
proof -
  obtain resp s' where c: "create_or_run_container P pid rq s = (resp, s')"
    by (cases "create_or_run_container P pid rq s")
  from create_or_run_container_outcome[OF c, THEN conjunct2, THEN conjunct2]
  have "(\<exists>msg. resp = error_response msg 500)
        \<or> (\<exists>h sr. resp = restarted_response pid h sr \<or> resp = already_running_response pid h sr)
        \<or> (\<exists>h sr. resp = created_response P pid h sr)"
    by blast
  then show ?thesis
  proof (elim disjE exE)
    fix msg assume "resp = error_response msg 500"
    then show ?thesis unfolding c by (simp add: Let_def error_response_def jsonify_def)
  next
    fix h sr assume "resp = restarted_response pid h sr"
    then show ?thesis unfolding c by (simp add: Let_def restarted_response_def jsonify_def)
  next
    fix h sr assume "resp = already_running_response pid h sr"
    then show ?thesis unfolding c by (simp add: Let_def already_running_response_def jsonify_def)
  next
    fix h sr assume "resp = created_response P pid h sr"
    then show ?thesis unfolding c by (simp add: Let_def created_response_def jsonify_def)
  qed
qed

theorem create_or_run_response_fields_witness:
  "code (fst (create_or_run_container runtime_up ''42'' JNull (init_state [(''42'', ''h1'')]))) = 200
   \<and> map_of (body (fst (create_or_run_container runtime_up ''42'' JNull (init_state [(''42'', ''h1'')]))))
        ''project_id'' = None
   \<and> code (fst (create_or_run_container stopped_runtime ''42'' JNull (init_state [(''42'', ''h1'')]))) = 200
   \<and> map_of (body (fst (create_or_run_container stopped_runtime ''42'' JNull (init_state [(''42'', ''h1'')]))))
        ''project_id'' = None
   \<and> code (fst (create_or_run_container runtime_up ''42'' JNull (init_state []))) = 201
   \<and> map_of (body (fst (create_or_run_container runtime_up ''42'' JNull (init_state []))))
        ''project_id'' = Some (JStr ''42'')"
proof -
  let ?s = "init_state [(''42'', ''h1'')]"
  have a: "code (fst (create_or_run_container runtime_up ''42'' JNull ?s)) = 200" by code_simp
  have b: "code (fst (create_or_run_container stopped_runtime ''42'' JNull ?s)) = 200" by code_simp
  have c: "code (fst (create_or_run_container runtime_up ''42'' JNull (init_state []))) = 201"
    by code_simp
  from create_or_run_response_fields[of runtime_up "''42''" JNull ?s] a
  have a': "map_of (body (fst (create_or_run_container runtime_up ''42'' JNull ?s))) ''project_id'' = None"
    by (simp add: Let_def)
  from create_or_run_response_fields[of stopped_runtime "''42''" JNull ?s] b
  have b': "map_of (body (fst (create_or_run_container stopped_runtime ''42'' JNull ?s))) ''project_id'' = None"
    by (simp add: Let_def)
  from create_or_run_response_fields[of runtime_up "''42''" JNull "init_state []"] c
  have c': "map_of (body (fst (create_or_run_container runtime_up ''42'' JNull (init_state []))))
        ''project_id'' = Some (JStr ''42'')"
    by (simp add: Let_def)
  from a a' b b' c c' show ?thesis by (intro conjI)
qed

subsection \<open>C6: the project's identifier in the environment\<close>

text \<open>
  C6. \<^verbatim>\<open>run_container\<close> itself, with any environment dictionary (or none): every run
  command it issues has, after the container name, the \<^verbatim>\<open>-e\<close> arguments of that
  environment with \<^verbatim>\<open>PROJECT_ID\<close> set to the project, and a run that succeeds has issued
  such a command. In that environment \<^verbatim>\<open>PROJECT_ID\<close> is bound to the project whatever
  the caller gave, every other key has the caller's value, and the argument
  \<^verbatim>\<open>PROJECT_ID=\<close>project is among the \<^verbatim>\<open>-e\<close> arguments. For distinct keys these
  are the caller's pairs in their places, with only the value of \<^verbatim>\<open>PROJECT_ID\<close>
  replaced, or added last when it was not given; and when no other key reads as the name
  \<^verbatim>\<open>PROJECT_ID\<close> before its first \<^verbatim>\<open>=\<close>, that argument is the only one with this
  name. The same holds of a create-or-run request whose body \<open>b\<close> holds an environment
  dictionary \<open>d\<close>: the configuration read from it has as environment \<open>d\<close> with
  \<^verbatim>\<open>PROJECT_ID\<close> set, and every run command that the request issues carries its
  \<^verbatim>\<open>-e\<close> arguments.
\<close>

theorem project_id_overwrites_environment:
  assumes "map_of b ''environment'' = Some (JObj d)"
  shows
    "request_config pid (JObj b) =
       Inr (JObj (AList.update ''PROJECT_ID'' (JStr pid) d),
            dict_get b ''ports'' (JObj []), dict_get b ''volumes'' (JObj []),
            dict_get b ''command'' JNull)
     \<and> map_of (AList.update ''PROJECT_ID'' (JStr pid) d) ''PROJECT_ID'' = Some (JStr pid)
     \<and> (\<forall>k. k \<noteq> ''PROJECT_ID'' \<longrightarrow>
           map_of (AList.update ''PROJECT_ID'' (JStr pid) d) k = map_of d k)
     \<and> (\<forall>s resp s' c x.
           create_or_run_container P pid (JObj b) s = (resp, s') \<and>
           (c, x) \<in> set (issued s s') \<and> is_run c \<longrightarrow>
           (\<exists>rest. c = [''docker'', ''run'', ''-d'', ''--name'', ''project-'' @ pid]
                        @ env_flags (AList.update ''PROJECT_ID'' (JStr pid) d) @ rest))
     \<and> (distinct (map fst d) \<longrightarrow>
           env_flags (AList.update ''PROJECT_ID'' (JStr pid) d) = merged_env_flags pid d)
     \<and> (\<forall>e ports vols cmd s r s' c x.
           run_container P pid (JObj e) ports vols cmd s = (r, s') \<and>
           (c, x) \<in> set (issued s s') \<and> is_run c \<longrightarrow>
           (\<exists>rest. c = [''docker'', ''run'', ''-d'', ''--name'', ''project-'' @ pid]
                        @ env_flags (AList.update ''PROJECT_ID'' (JStr pid) e) @ rest))
     \<and> (\<forall>e ports vols cmd s h s'.
           run_container P pid (JObj e) ports vols cmd s = (Inr (RunOk h), s') \<longrightarrow>
           (\<exists>c x rest. runs (issued s s') = [(c, x)] \<and> success x \<and> h = strip (outp x) \<and>
              c = [''docker'', ''run'', ''-d'', ''--name'', ''project-'' @ pid]
                    @ env_flags (AList.update ''PROJECT_ID'' (JStr pid) e) @ rest))
     \<and> (\<forall>ports vols cmd s r s' c x.
           run_container P pid JNull ports vols cmd s = (r, s') \<and>
           (c, x) \<in> set (issued s s') \<and> is_run c \<longrightarrow>
           (\<exists>rest. c = [''docker'', ''run'', ''-d'', ''--name'', ''project-'' @ pid,
                         ''-e'', ''PROJECT_ID='' @ pid] @ rest))
     \<and> (\<forall>e. map_of (AList.update ''PROJECT_ID'' (JStr pid) e) ''PROJECT_ID'' = Some (JStr pid) \<and>
              (\<forall>k. k \<noteq> ''PROJECT_ID'' \<longrightarrow>
                 map_of (AList.update ''PROJECT_ID'' (JStr pid) e) k = map_of e k) \<and>
              ''PROJECT_ID='' @ pid \<in> set (env_flags (AList.update ''PROJECT_ID'' (JStr pid) e)))
     \<and> (\<forall>e. distinct (map fst e) \<longrightarrow>
              env_flags (AList.update ''PROJECT_ID'' (JStr pid) e) = merged_env_flags pid e)
     \<and> (\<forall>e. distinct (map fst e) \<and>
              (\<forall>k \<in> fst ` set e. k \<noteq> ''PROJECT_ID'' \<longrightarrow> env_arg_name k \<noteq> ''PROJECT_ID'') \<longrightarrow>
              filter (\<lambda>a. env_arg_name a = ''PROJECT_ID'')
                (env_flags (AList.update ''PROJECT_ID'' (JStr pid) e)) = [''PROJECT_ID='' @ pid])"
proof -
  from assms have ne: "b \<noteq> []" by auto
  from assms have g: "dict_get b ''environment'' (JObj []) = JObj d" by (simp add: dict_get_def)
  have rc: "request_config pid (JObj b) =
       Inr (JObj (AList.update ''PROJECT_ID'' (JStr pid) d),
            dict_get b ''ports'' (JObj []), dict_get b ''volumes'' (JObj []),
            dict_get b ''command'' JNull)"
    using request_config_dict[OF ne, of pid] g by simp
  have same: "map_of (AList.update ''PROJECT_ID'' (JStr pid) e) ''PROJECT_ID'' = Some (JStr pid)" for e
    by (simp add: update_conv')
  have other: "\<forall>k. k \<noteq> ''PROJECT_ID'' \<longrightarrow>
           map_of (AList.update ''PROJECT_ID'' (JStr pid) e) k = map_of e k" for e
    by (simp add: update_conv')
  have cmd: "\<exists>rest. c = [''docker'', ''run'', ''-d'', ''--name'', ''project-'' @ pid]
                        @ env_flags (AList.update ''PROJECT_ID'' (JStr pid) d) @ rest"
    if r: "create_or_run_container P pid (JObj b) s = (resp, s')"
      "(c, x) \<in> set (issued s s')" "is_run c"
    for s resp s' c x
  proof -
    from r(2,3) have "(c, x) \<in> set (runs (issued s s'))" by (simp add: runs_def)
    with create_or_run_container_outcome[OF r(1), THEN conjunct2, THEN conjunct1]
    have "fresh_run_cmd P pid (JObj b) = Inr c" by blast
    then have "build_run_cmd (USER_CONTAINER_TEMPLATE P) pid
                 (JObj (AList.update ''PROJECT_ID'' (JStr pid) d))
                 (or_empty_dict (dict_get b ''ports'' (JObj [])))
                 (or_empty_dict (dict_get b ''volumes'' (JObj [])))
                 (dict_get b ''command'' JNull) = Inr c"
      by (simp add: fresh_run_cmd_def run_container_cmd_def rc exn_bind_def or_empty_dict_def
            update_update_same)
    then show ?thesis by (rule build_run_cmd_shape)
  qed
  have cmds: "\<forall>s resp s' c x.
           create_or_run_container P pid (JObj b) s = (resp, s') \<and>
           (c, x) \<in> set (issued s s') \<and> is_run c \<longrightarrow>
           (\<exists>rest. c = [''docker'', ''run'', ''-d'', ''--name'', ''project-'' @ pid]
                        @ env_flags (AList.update ''PROJECT_ID'' (JStr pid) d) @ rest)"
    using cmd by (intro allI impI) (elim conjE)
  have flags: "distinct (map fst e) \<longrightarrow>
           env_flags (AList.update ''PROJECT_ID'' (JStr pid) e) = merged_env_flags pid e" for e
    by (simp add: env_flags_update)
  have oe: "or_empty_dict (JObj e) = JObj e" for e by (simp add: or_empty_dict_def)
  have on: "or_empty_dict JNull = JObj []" by (simp add: or_empty_dict_def)
  have run1: "\<forall>e ports vols cmd s r s' c x.
           run_container P pid (JObj e) ports vols cmd s = (r, s') \<and>
           (c, x) \<in> set (issued s s') \<and> is_run c \<longrightarrow>
           (\<exists>rest. c = [''docker'', ''run'', ''-d'', ''--name'', ''project-'' @ pid]
                        @ env_flags (AList.update ''PROJECT_ID'' (JStr pid) e) @ rest)"
  proof (intro allI impI, elim conjE)
    fix e ports vols cmd s r s' c x
    assume a: "run_container P pid (JObj e) ports vols cmd s = (r, s')"
      and m: "(c, x) \<in> set (issued s s')" "is_run c"
    from m have "(c, x) \<in> set (issued s s') \<and> is_run c" by (intro conjI)
    with run_container_issued[OF a oe, THEN conjunct1, THEN spec, THEN spec, of c x]
    show "\<exists>rest. c = [''docker'', ''run'', ''-d'', ''--name'', ''project-'' @ pid]
                        @ env_flags (AList.update ''PROJECT_ID'' (JStr pid) e) @ rest"
      by (rule mp)
  qed
  have run2: "\<forall>e ports vols cmd s h s'.
           run_container P pid (JObj e) ports vols cmd s = (Inr (RunOk h), s') \<longrightarrow>
           (\<exists>c x rest. runs (issued s s') = [(c, x)] \<and> success x \<and> h = strip (outp x) \<and>
              c = [''docker'', ''run'', ''-d'', ''--name'', ''project-'' @ pid]
                    @ env_flags (AList.update ''PROJECT_ID'' (JStr pid) e) @ rest)"
  proof (intro allI impI)
    fix e ports vols cmd s h s'
    assume a: "run_container P pid (JObj e) ports vols cmd s = (Inr (RunOk h), s')"
    from run_container_issued[OF a oe, THEN conjunct2, THEN spec, of h]
    show "\<exists>c x rest. runs (issued s s') = [(c, x)] \<and> success x \<and> h = strip (outp x) \<and>
              c = [''docker'', ''run'', ''-d'', ''--name'', ''project-'' @ pid]
                    @ env_flags (AList.update ''PROJECT_ID'' (JStr pid) e) @ rest"
      by (rule mp) (rule refl)
  qed
  have run3: "\<forall>ports vols cmd s r s' c x.
           run_container P pid JNull ports vols cmd s = (r, s') \<and>
           (c, x) \<in> set (issued s s') \<and> is_run c \<longrightarrow>
           (\<exists>rest. c = [''docker'', ''run'', ''-d'', ''--name'', ''project-'' @ pid,
                         ''-e'', ''PROJECT_ID='' @ pid] @ rest)"
  proof (intro allI impI, elim conjE)
    fix ports vols cmd s r s' c x
    assume a: "run_container P pid JNull ports vols cmd s = (r, s')"
      and m: "(c, x) \<in> set (issued s s')" "is_run c"
    from m have "(c, x) \<in> set (issued s s') \<and> is_run c" by (intro conjI)
    with run_container_issued[OF a on, THEN conjunct1, THEN spec, THEN spec, of c x]
    have "\<exists>rest. c = [''docker'', ''run'', ''-d'', ''--name'', ''project-'' @ pid]
                        @ env_flags (AList.update ''PROJECT_ID'' (JStr pid) []) @ rest"
      by (rule mp)
    then obtain rest where "c = [''docker'', ''run'', ''-d'', ''--name'', ''project-'' @ pid]
                        @ env_flags (AList.update ''PROJECT_ID'' (JStr pid) []) @ rest" ..
    then have "c = [''docker'', ''run'', ''-d'', ''--name'', ''project-'' @ pid,
                         ''-e'', ''PROJECT_ID='' @ pid] @ rest"
      by (simp add: env_flags_def)
    then show "\<exists>rest. c = [''docker'', ''run'', ''-d'', ''--name'', ''project-'' @ pid,
                         ''-e'', ''PROJECT_ID='' @ pid] @ rest" ..
  qed
  have maps: "\<forall>e. map_of (AList.update ''PROJECT_ID'' (JStr pid) e) ''PROJECT_ID'' = Some (JStr pid) \<and>
              (\<forall>k. k \<noteq> ''PROJECT_ID'' \<longrightarrow>
                 map_of (AList.update ''PROJECT_ID'' (JStr pid) e) k = map_of e k) \<and>
              ''PROJECT_ID='' @ pid \<in> set (env_flags (AList.update ''PROJECT_ID'' (JStr pid) e))"
  proof (intro allI)
    fix e
    from same[of e] other[of e] project_id_flag_issued[of pid e]
    show "map_of (AList.update ''PROJECT_ID'' (JStr pid) e) ''PROJECT_ID'' = Some (JStr pid) \<and>
              (\<forall>k. k \<noteq> ''PROJECT_ID'' \<longrightarrow>
                 map_of (AList.update ''PROJECT_ID'' (JStr pid) e) k = map_of e k) \<and>
              ''PROJECT_ID='' @ pid \<in> set (env_flags (AList.update ''PROJECT_ID'' (JStr pid) e))"
      by (intro conjI)
  qed
  have flags_all: "\<forall>e. distinct (map fst e) \<longrightarrow>
              env_flags (AList.update ''PROJECT_ID'' (JStr pid) e) = merged_env_flags pid e"
    using flags by (intro allI)
  have names: "\<forall>e. distinct (map fst e) \<and>
              (\<forall>k \<in> fst ` set e. k \<noteq> ''PROJECT_ID'' \<longrightarrow> env_arg_name k \<noteq> ''PROJECT_ID'') \<longrightarrow>
              filter (\<lambda>a. env_arg_name a = ''PROJECT_ID'')
                (env_flags (AList.update ''PROJECT_ID'' (JStr pid) e)) = [''PROJECT_ID='' @ pid]"
    by (intro allI impI, elim conjE) (rule one_project_id_name)
  from rc same[of d] other[of d] cmds flags[of d] run1 run2 run3 maps flags_all names
  show ?thesis by (intro conjI)
qed

theorem project_id_overwrites_environment_witness:
  "map_of [(''environment'', JObj [(''PROJECT_ID'', JStr ''spoofed''), (''FOO'', JStr ''bar'')])]
      ''environment'' = Some (JObj [(''PROJECT_ID'', JStr ''spoofed''), (''FOO'', JStr ''bar'')])
   \<and> map_of (AList.update ''PROJECT_ID'' (JStr ''42'')
         [(''PROJECT_ID'', JStr ''spoofed''), (''FOO'', JStr ''bar'')]) ''PROJECT_ID'' = Some (JStr ''42'')
   \<and> map_of (AList.update ''PROJECT_ID'' (JStr ''42'')
         [(''PROJECT_ID'', JStr ''spoofed''), (''FOO'', JStr ''bar'')]) ''FOO'' = Some (JStr ''bar'')
   \<and> map fst (runs (history (snd (create_or_run_container runtime_up ''42''
         (JObj [(''environment'', JObj [(''PROJECT_ID'', JStr ''spoofed''), (''FOO'', JStr ''bar'')])])
         (init_state [])))))
       = [[''docker'', ''run'', ''-d'', ''--name'', ''project-42'',
           ''-e'', ''PROJECT_ID=42'', ''-e'', ''FOO=bar'',
           ''--label'', ''project_id=42'', ''--label'', ''managed_by=agent_name_tbd'',
           ''--restart'', ''unless-stopped'', ''base:latest'']]
   \<and> fst (run_container runtime_up ''42''
         (JObj [(''PROJECT_ID'', JStr ''spoofed''), (''FOO'', JStr ''bar'')]) JNull JNull JNull
         (init_state [])) = Inr (RunOk ''h1'')
   \<and> map fst (runs (history (snd (run_container runtime_up ''42''
         (JObj [(''PROJECT_ID'', JStr ''spoofed''), (''FOO'', JStr ''bar'')]) JNull JNull JNull
         (init_state [])))))
       = [[''docker'', ''run'', ''-d'', ''--name'', ''project-42'',
           ''-e'', ''PROJECT_ID=42'', ''-e'', ''FOO=bar'',
           ''--label'', ''project_id=42'', ''--label'', ''managed_by=agent_name_tbd'',
           ''--restart'', ''unless-stopped'', ''base:latest'']]
   \<and> filter (\<lambda>a. env_arg_name a = ''PROJECT_ID'')
         (env_flags (AList.update ''PROJECT_ID'' (JStr ''42'')
            [(''PROJECT_ID'', JStr ''spoofed''), (''FOO'', JStr ''bar'')])) = [''PROJECT_ID=42'']"
proof -
  let ?d = "[(''PROJECT_ID'', JStr ''spoofed''), (''FOO'', JStr ''bar'')]"
  let ?run = "run_container runtime_up ''42'' (JObj ?d) JNull JNull JNull (init_state [])"
  have a: "map_of [(''environment'', JObj ?d)] ''environment'' = Some (JObj ?d)" by simp
  have b: "map_of ?d ''FOO'' = Some (JStr ''bar'')" by simp
  have c: "map fst (runs (history (snd (create_or_run_container runtime_up ''42''
         (JObj [(''environment'', JObj ?d)]) (init_state [])))))
       = [[''docker'', ''run'', ''-d'', ''--name'', ''project-42'',
           ''-e'', ''PROJECT_ID=42'', ''-e'', ''FOO=bar'',
           ''--label'', ''project_id=42'', ''--label'', ''managed_by=agent_name_tbd'',
           ''--restart'', ''unless-stopped'', ''base:latest'']]"
    by code_simp
  have r: "fst ?run = Inr (RunOk ''h1'')" by code_simp
  have rr: "map fst (runs (history (snd ?run)))
       = [[''docker'', ''run'', ''-d'', ''--name'', ''project-42'',
           ''-e'', ''PROJECT_ID=42'', ''-e'', ''FOO=bar'',
           ''--label'', ''project_id=42'', ''--label'', ''managed_by=agent_name_tbd'',
           ''--restart'', ''unless-stopped'', ''base:latest'']]"
    by code_simp
  have dk: "distinct (map fst ?d) \<and>
      (\<forall>k \<in> fst ` set ?d. k \<noteq> ''PROJECT_ID'' \<longrightarrow> env_arg_name k \<noteq> ''PROJECT_ID'')"
    by (simp add: env_arg_name_def)
  note t = project_id_overwrites_environment[OF a, of "''42''" runtime_up]
  from t[THEN conjunct2, THEN conjunct1]
  have t2: "map_of (AList.update ''PROJECT_ID'' (JStr ''42'') ?d) ''PROJECT_ID'' = Some (JStr ''42'')" .
  from t[THEN conjunct2, THEN conjunct2, THEN conjunct1]
  have "''FOO'' \<noteq> ''PROJECT_ID'' \<longrightarrow>
      map_of (AList.update ''PROJECT_ID'' (JStr ''42'') ?d) ''FOO'' = map_of ?d ''FOO''"
    by (rule spec)
  with b have t3: "map_of (AList.update ''PROJECT_ID'' (JStr ''42'') ?d) ''FOO'' = Some (JStr ''bar'')"
    by simp
  from t[THEN conjunct2, THEN conjunct2, THEN conjunct2, THEN conjunct2, THEN conjunct2,
         THEN conjunct2, THEN conjunct2, THEN conjunct2, THEN conjunct2, THEN conjunct2,
         THEN spec, of ?d] dk
  have "filter (\<lambda>a. env_arg_name a = ''PROJECT_ID'')
         (env_flags (AList.update ''PROJECT_ID'' (JStr ''42'') ?d)) = [''PROJECT_ID='' @ ''42'']"
    by (rule mp)
  then have t4: "filter (\<lambda>a. env_arg_name a = ''PROJECT_ID'')
         (env_flags (AList.update ''PROJECT_ID'' (JStr ''42'') ?d)) = [''PROJECT_ID=42'']"
    by simp
  from a t2 t3 c r rr t4 show ?thesis by (intro conjI)
qed

end
